theory Spec2Isabelle
  imports Complex_Main "HOL-Library.Multiset" "HOL-Library.Sublist"
begin

section \<open>Python values and errors\<close>

text \<open>
  Values that the JSON decoder hands to the loader: \<open>null\<close>, an integer or a string.
  A dictionary key that may be absent is an \<open>option\<close> of such a value.
\<close>

datatype pyval = PNone | PInt int | PStr string

datatype error =
    KeyError
  | ValueError
  | TypeError
  | AttributeError
  | FileNotFoundError
  | JSONDecodeError
  | TransientError
  | OtherError string

text \<open>
  \<open>str.isspace\<close> on the code points below 256, and \<open>str.strip()\<close> built on it.
\<close>

definition is_space :: "char \<Rightarrow> bool" where
  "is_space c = (of_char c \<in> {9, 10, 11, 12, 13, 28, 29, 30, 31, 32, 133, 160 :: nat})"

definition py_strip :: "string \<Rightarrow> string" where
  "py_strip s = rev (dropWhile is_space (rev (dropWhile is_space s)))"

text \<open>\<open>" ".join(parts)\<close>\<close>

fun join_space :: "string list \<Rightarrow> string" where
  "join_space [] = []"
| "join_space [x] = x"
| "join_space (x # y # ys) = x @ '' '' @ join_space (y # ys)"

text \<open>
  \<open>int(v)\<close>: an integer is returned as it is, \<open>None\<close> raises \<open>TypeError\<close>, a string is
  read as an optional sign followed by decimal digits, with surrounding whitespace
  ignored, and raises \<open>ValueError\<close> otherwise (digit grouping with underscores and
  digits outside ASCII are not modelled: such strings raise here).
\<close>

definition is_digit :: "char \<Rightarrow> bool" where
  "is_digit c = (48 \<le> (of_char c :: nat) \<and> (of_char c :: nat) \<le> 57)"

definition digit_val :: "char \<Rightarrow> nat" where
  "digit_val c = of_char c - 48"

definition nat_of_digits :: "string \<Rightarrow> nat" where
  "nat_of_digits ds = foldl (\<lambda>acc c. 10 * acc + digit_val c) 0 ds"

definition int_of_string :: "string \<Rightarrow> int option" where
  "int_of_string s =
     (let t = py_strip s;
          (neg, ds) = (case t of
                         c # r \<Rightarrow> if c = CHR ''-'' then (True, r)
                                  else if c = CHR ''+'' then (False, r)
                                  else (False, t)
                       | [] \<Rightarrow> (False, t))
      in if ds \<noteq> [] \<and> list_all is_digit ds
         then Some (if neg then - int (nat_of_digits ds) else int (nat_of_digits ds))
         else None)"

fun py_int :: "pyval \<Rightarrow> error + int" where
  "py_int (PInt n) = Inr n"
| "py_int (PStr s) = (case int_of_string s of None \<Rightarrow> Inl ValueError | Some n \<Rightarrow> Inr n)"
| "py_int PNone = Inl TypeError"

section \<open>Chunk loader: \<open>ChunkedThreatLoader.load_and_reconstruct\<close>\<close>

definition MAX_CHUNK_TEXT_LENGTH :: nat where
  "MAX_CHUNK_TEXT_LENGTH = 2048"

definition MIN_TEXT_LENGTH :: nat where
  "MIN_TEXT_LENGTH = 10"

text \<open>
  One decoded chunk. \<open>chunk["record_id"]\<close> and \<open>chunk["chunk_index"]\<close> raise
  \<open>KeyError\<close> when the key is absent (\<open>None\<close> here); \<open>chunk.get("text", "")\<close> and the
  metadata reads \<open>chunk.get(k, None)\<close> have defaults.
\<close>

record chunk =
  chunk_record_id :: "pyval option"
  chunk_chunk_index :: "pyval option"
  chunk_text :: "pyval option"
  chunk_source :: pyval
  chunk_type :: pyval
  chunk_indicator :: pyval
  chunk_date :: pyval

text \<open>The entry that \<open>records_map\<close> holds for a record id, once its metadata is set.\<close>

record rec_entry =
  rec_source :: pyval
  rec_type :: pyval
  rec_indicator :: pyval
  rec_date :: pyval
  text_chunks :: "(int \<times> string) list"

text \<open>A reconstructed document. \<open>doc.get("record_id")\<close> may be \<open>None\<close> for the executor.\<close>

record document =
  doc_record_id :: "int option"
  doc_source :: pyval
  doc_type :: pyval
  doc_indicator :: pyval
  doc_date :: pyval
  doc_text :: string

text \<open>
  What the body of the loading loop decides for one chunk, before it touches
  \<open>records_map\<close>: the chunk is retained with its coerced record id, chunk index and text,
  or it is skipped (text missing or too short, text too long, or an exception).
\<close>

datatype chunk_result =
    Retained int int string
  | SkippedShort
  | SkippedLong
  | Malformed error

definition lookup_key :: "pyval option \<Rightarrow> error + int" where
  "lookup_key v = (case v of None \<Rightarrow> Inl KeyError | Some x \<Rightarrow> py_int x)"

definition check_text :: "int \<Rightarrow> int \<Rightarrow> pyval option \<Rightarrow> chunk_result" where
  "check_text rec_id chunk_idx t =
     (case t of
        None \<Rightarrow> SkippedShort
      | Some PNone \<Rightarrow> SkippedShort
      | Some (PInt n) \<Rightarrow> if n = 0 then SkippedShort else Malformed TypeError
      | Some (PStr s) \<Rightarrow>
          if s = [] \<or> length s < MIN_TEXT_LENGTH then SkippedShort
          else if length s > MAX_CHUNK_TEXT_LENGTH then SkippedLong
          else Retained rec_id chunk_idx s)"

definition validate_chunk :: "chunk \<Rightarrow> chunk_result" where
  "validate_chunk c =
     (case lookup_key (chunk_record_id c) of
        Inl e \<Rightarrow> Malformed e
      | Inr rec_id \<Rightarrow>
          (case lookup_key (chunk_chunk_index c) of
             Inl e \<Rightarrow> Malformed e
           | Inr chunk_idx \<Rightarrow> check_text rec_id chunk_idx (chunk_text c)))"

text \<open>
  \<open>records_map\<close> is a dictionary in insertion order: an association list whose new keys are
  appended. \<open>add_chunk\<close> is \<open>rec_entry = records_map[rec_id]\<close> followed by the metadata
  assignment for a fresh entry and by \<open>rec_entry["text_chunks"].append((chunk_idx, text))\<close>.
\<close>

type_synonym records_map = "(int \<times> rec_entry) list"

fun add_chunk :: "records_map \<Rightarrow> int \<Rightarrow> chunk \<Rightarrow> (int \<times> string) \<Rightarrow> records_map" where
  "add_chunk [] rec_id c e =
     [(rec_id, \<lparr> rec_source = chunk_source c, rec_type = chunk_type c,
                 rec_indicator = chunk_indicator c, rec_date = chunk_date c,
                 text_chunks = [e] \<rparr>)]"
| "add_chunk ((k, r) # m) rec_id c e =
     (if k = rec_id then (k, r\<lparr> text_chunks := text_chunks r @ [e] \<rparr>) # m
      else (k, r) # add_chunk m rec_id c e)"

definition load_step :: "records_map \<Rightarrow> chunk \<Rightarrow> records_map" where
  "load_step m c =
     (case validate_chunk c of
        Retained rec_id chunk_idx s \<Rightarrow> add_chunk m rec_id c (chunk_idx, s)
      | SkippedShort \<Rightarrow> m
      | SkippedLong \<Rightarrow> m
      | Malformed e \<Rightarrow> m)"

fun load_chunks :: "records_map \<Rightarrow> chunk list \<Rightarrow> records_map" where
  "load_chunks m [] = m"
| "load_chunks m (c # cs) = load_chunks (load_step m c) cs"

text \<open>
  The second loop: \<open>rec["text_chunks"].sort(key=lambda x: x[0])\<close> is a stable sort on the
  chunk index, the texts are joined with one space and the result is stripped.
\<close>

definition full_text :: "(int \<times> string) list \<Rightarrow> string" where
  "full_text tcs = py_strip (join_space (map snd (sort_key fst tcs)))"

definition reconstruct_doc :: "int \<times> rec_entry \<Rightarrow> document" where
  "reconstruct_doc kr =
     \<lparr> doc_record_id = Some (fst kr), doc_source = rec_source (snd kr),
       doc_type = rec_type (snd kr), doc_indicator = rec_indicator (snd kr),
       doc_date = rec_date (snd kr), doc_text = full_text (text_chunks (snd kr)) \<rparr>"

definition load_and_reconstruct :: "chunk list \<Rightarrow> document list" where
  "load_and_reconstruct cs = map reconstruct_doc (load_chunks [] cs)"

text \<open>A chunk as the archive format describes it: integer ids, a string text.\<close>

definition mk_chunk :: "int \<Rightarrow> int \<Rightarrow> string \<Rightarrow> chunk" where
  "mk_chunk rid idx s =
     \<lparr> chunk_record_id = Some (PInt rid), chunk_chunk_index = Some (PInt idx),
       chunk_text = Some (PStr s), chunk_source = PNone, chunk_type = PNone,
       chunk_indicator = PNone, chunk_date = PNone \<rparr>"

text \<open>
  Read-side descriptions of the loading loop, used to state what the loader computes:
  the retained \<open>(chunk_index, text)\<close> pairs of one record id in read order, the record
  ids of the retained chunks in read order, and the distinct ids in order of first
  appearance (the key order of an insertion-ordered dictionary).
\<close>

fun entries_of :: "int \<Rightarrow> chunk list \<Rightarrow> (int \<times> string) list" where
  "entries_of d [] = []"
| "entries_of d (c # cs) =
     (case validate_chunk c of
        Retained rec_id chunk_idx s \<Rightarrow>
          (if rec_id = d then (chunk_idx, s) # entries_of d cs else entries_of d cs)
      | SkippedShort \<Rightarrow> entries_of d cs
      | SkippedLong \<Rightarrow> entries_of d cs
      | Malformed e \<Rightarrow> entries_of d cs)"

fun retained_ids :: "chunk list \<Rightarrow> int list" where
  "retained_ids [] = []"
| "retained_ids (c # cs) =
     (case validate_chunk c of
        Retained rec_id chunk_idx s \<Rightarrow> rec_id # retained_ids cs
      | SkippedShort \<Rightarrow> retained_ids cs
      | SkippedLong \<Rightarrow> retained_ids cs
      | Malformed e \<Rightarrow> retained_ids cs)"

fun first_seen :: "int list \<Rightarrow> int list" where
  "first_seen [] = []"
| "first_seen (x # xs) = x # filter (\<lambda>y. y \<noteq> x) (first_seen xs)"

definition texts_of :: "records_map \<Rightarrow> int \<Rightarrow> (int \<times> string) list" where
  "texts_of m d = (case map_of m d of None \<Rightarrow> [] | Some r \<Rightarrow> text_chunks r)"

text \<open>The coerced \<open>(record_id, chunk_index)\<close> of a chunk, when both coercions succeed.\<close>

definition chunk_key :: "chunk \<Rightarrow> (int \<times> int) option" where
  "chunk_key c =
     (case lookup_key (chunk_record_id c) of
        Inl e \<Rightarrow> None
      | Inr d \<Rightarrow>
          (case lookup_key (chunk_chunk_index c) of
             Inl e \<Rightarrow> None
           | Inr p \<Rightarrow> Some (d, p)))"

definition entry_of :: "int \<Rightarrow> chunk \<Rightarrow> (int \<times> string) option" where
  "entry_of d c =
     (case validate_chunk c of
        Retained rec_id chunk_idx s \<Rightarrow> if rec_id = d then Some (chunk_idx, s) else None
      | SkippedShort \<Rightarrow> None
      | SkippedLong \<Rightarrow> None
      | Malformed e \<Rightarrow> None)"

definition id_of :: "chunk \<Rightarrow> int option" where
  "id_of c =
     (case validate_chunk c of
        Retained rec_id chunk_idx s \<Rightarrow> Some rec_id
      | SkippedShort \<Rightarrow> None
      | SkippedLong \<Rightarrow> None
      | Malformed e \<Rightarrow> None)"

definition id_text :: "document \<Rightarrow> int option \<times> string" where
  "id_text doc = (doc_record_id doc, doc_text doc)"

definition text_of_doc :: "document list \<Rightarrow> int \<Rightarrow> string option" where
  "text_of_doc docs d = map_of (map id_text docs) (Some d)"

section \<open>Entities, relationships and the MITRE enrichment stage\<close>

text \<open>
  \<open>ThreatEntity\<close> and \<open>ThreatRelationship\<close> with the fields that enrichment and
  persistence read or write. \<open>type\<close> is declared as an enumeration but is passed around as
  a string that may be missing.
\<close>

record entity =
  ent_name :: string
  ent_type :: "string option"
  ent_text :: "string option"
  ent_confidence :: "real option"
  ent_description :: "string option"
  ent_mitre_id :: "string option"
  ent_external_references :: "string list option"

record relationship =
  rel_source_name :: string
  rel_source_type :: "string option"
  rel_target_name :: string
  rel_target_type :: "string option"
  rel_relationship_type :: "string option"
  rel_description :: "string option"
  rel_confidence :: "real option"

text \<open>The STIX bundle of the local cache file, as far as \<open>find_mitre_info\<close> reads it.\<close>

record ext_ref =
  ref_source_name :: "string option"
  ref_external_id :: "string option"
  ref_url :: "string option"

record stix_object =
  obj_external_references :: "ext_ref list"
  obj_name :: string
  obj_description :: string
  obj_type :: string

record mitre_dict =
  md_objects :: "stix_object list option"
  md_other_keys :: bool

record mitre_info =
  mi_mitre_id :: string
  mi_description :: string
  mi_external_references :: "string list"
  mi_type :: string
  mi_name :: string

text \<open>\<open>str.upper()\<close> and \<open>str.lower()\<close> on ASCII letters; other characters are kept.\<close>

definition upper_char :: "char \<Rightarrow> char" where
  "upper_char c =
     (if 97 \<le> (of_char c :: nat) \<and> (of_char c :: nat) \<le> 122
      then char_of ((of_char c :: nat) - 32) else c)"

definition lower_char :: "char \<Rightarrow> char" where
  "lower_char c =
     (if 65 \<le> (of_char c :: nat) \<and> (of_char c :: nat) \<le> 90
      then char_of ((of_char c :: nat) + 32) else c)"

definition py_upper :: "string \<Rightarrow> string" where
  "py_upper s = map upper_char s"

definition py_lower :: "string \<Rightarrow> string" where
  "py_lower s = map lower_char s"

text \<open>A dictionary is truthy when it has a key.\<close>

definition dict_truthy :: "mitre_dict \<Rightarrow> bool" where
  "dict_truthy md = (md_objects md \<noteq> None \<or> md_other_keys md)"

text \<open>
  \<open>fetch_mitre_data\<close>, given what \<open>load_local_cache\<close> returns (\<open>None\<close> when the cache
  file is absent or unreadable). The decorator's in-memory cache only saves reading the
  file again; the file is taken as fixed during a run.
\<close>

definition fetch_mitre_data :: "mitre_dict option \<Rightarrow> error + mitre_dict" where
  "fetch_mitre_data local_data =
     (case local_data of
        None \<Rightarrow> Inl FileNotFoundError
      | Some d \<Rightarrow> if dict_truthy d then Inr d else Inl FileNotFoundError)"

fun first_mitre_id :: "ext_ref list \<Rightarrow> string option" where
  "first_mitre_id [] = None"
| "first_mitre_id (r # rs) =
     (if ref_source_name r = Some ''mitre-attack'' then ref_external_id r
      else first_mitre_id rs)"

definition ref_urls :: "ext_ref list \<Rightarrow> string list" where
  "ref_urls refs =
     concat (map (\<lambda>r. case ref_url r of None \<Rightarrow> [] | Some u \<Rightarrow> if u = [] then [] else [u]) refs)"

fun find_in_objects :: "string \<Rightarrow> stix_object list \<Rightarrow> mitre_info option" where
  "find_in_objects name_upper [] = None"
| "find_in_objects name_upper (obj # objs) =
     (let ext_refs = obj_external_references obj;
          mitre_id = first_mitre_id ext_refs;
          info = (\<lambda>mid. \<lparr> mi_mitre_id = mid, mi_description = obj_description obj,
                           mi_external_references = ref_urls ext_refs,
                           mi_type = obj_type obj, mi_name = obj_name obj \<rparr>)
      in case (case mitre_id of
                 None \<Rightarrow> None
               | Some mid \<Rightarrow> if mid \<noteq> [] \<and> py_upper mid = name_upper then Some mid else None) of
           Some mid \<Rightarrow> Some (info mid)
         | None \<Rightarrow>
             if py_upper (obj_name obj) = name_upper
             then Some (info (case mitre_id of None \<Rightarrow> [] | Some mid \<Rightarrow> mid))
             else find_in_objects name_upper objs)"

definition find_mitre_info :: "string \<Rightarrow> mitre_dict \<Rightarrow> mitre_info option" where
  "find_mitre_info name mitre_data =
     (case md_objects mitre_data of
        None \<Rightarrow> None
      | Some objs \<Rightarrow> find_in_objects (py_upper name) objs)"

definition enrich_one :: "mitre_dict \<Rightarrow> entity \<Rightarrow> error + entity" where
  "enrich_one mitre_data e =
     (case ent_type e of
        None \<Rightarrow> Inl AttributeError
      | Some t \<Rightarrow>
          if py_lower t \<in> {''ttp'', ''technique'', ''tactic''}
          then (case find_mitre_info (ent_name e) mitre_data of
                  Some info \<Rightarrow>
                    Inr (e\<lparr> ent_mitre_id := Some (mi_mitre_id info),
                            ent_description := Some (mi_description info),
                            ent_external_references := Some (mi_external_references info) \<rparr>)
                | None \<Rightarrow> Inr e)
          else Inr e)"

fun enrich_loop :: "mitre_dict \<Rightarrow> entity list \<Rightarrow> error + entity list" where
  "enrich_loop mitre_data [] = Inr []"
| "enrich_loop mitre_data (e # es) =
     (case enrich_one mitre_data e of
        Inl err \<Rightarrow> Inl err
      | Inr e' \<Rightarrow>
          (case enrich_loop mitre_data es of
             Inl err \<Rightarrow> Inl err
           | Inr es' \<Rightarrow> Inr (e' # es')))"

definition enrich_entities_with_mitre_stix :: "mitre_dict option \<Rightarrow> entity list \<Rightarrow> error + entity list" where
  "enrich_entities_with_mitre_stix local_data entities =
     (case fetch_mitre_data local_data of
        Inl err \<Rightarrow> Inl err
      | Inr mitre_data \<Rightarrow> enrich_loop mitre_data entities)"

section \<open>Graph store and \<open>Neo4jPersistor\<close>\<close>

text \<open>
  The database content that the queries of the persistor read and write: nodes labelled
  \<open>ThreatEntity\<close> with their properties (a property set to \<open>null\<close> is absent) and
  \<open>RELATION\<close> relationships between two nodes, named by their position in the node list
  (no query of the pipeline deletes a node).
\<close>

record node =
  node_name :: string
  node_entity_type :: "string option"
  node_source_text :: "string option"
  node_confidence :: "real option"
  node_mitre_id :: "string option"
  node_description :: "string option"
  node_external_references :: "string list option"
  node_run_id :: "string option"

record edge =
  edge_source :: nat
  edge_target :: nat
  edge_type :: string
  edge_description :: "string option"
  edge_confidence :: "real option"
  edge_run_id :: "string option"

record graph =
  nodes :: "node list"
  edges :: "edge list"

definition new_node :: "string \<Rightarrow> string option \<Rightarrow> node" where
  "new_node name typ =
     \<lparr> node_name = name, node_entity_type = typ, node_source_text = None,
       node_confidence = None, node_mitre_id = None, node_description = None,
       node_external_references = None, node_run_id = None \<rparr>"

text \<open>
  The query of \<open>save_entity\<close>: \<open>MERGE (e:ThreatEntity {name: $name})\<close> binds every node
  with that name, or creates one when there is none; \<open>SET\<close> then writes the properties of
  every bound node.
\<close>

definition set_entity_props :: "string \<Rightarrow> entity \<Rightarrow> node \<Rightarrow> node" where
  "set_entity_props run_id e n =
     n\<lparr> node_entity_type := ent_type e,
        node_source_text := ent_text e,
        node_confidence := ent_confidence e,
        node_mitre_id := ent_mitre_id e,
        node_description := ent_description e,
        node_external_references :=
          Some (case ent_external_references e of None \<Rightarrow> [] | Some refs \<Rightarrow> refs),
        node_run_id := Some run_id \<rparr>"

definition merge_entity :: "string \<Rightarrow> entity \<Rightarrow> graph \<Rightarrow> error + graph" where
  "merge_entity run_id e g =
     (let ns = (if ent_name e \<in> set (map node_name (nodes g)) then nodes g
                else nodes g @ [new_node (ent_name e) None])
      in Inr (g\<lparr> nodes := map (\<lambda>n. if node_name n = ent_name e
                                     then set_entity_props run_id e n else n) ns \<rparr>))"

text \<open>
  The query of \<open>save_relationship\<close>: two node \<open>MERGE\<close>s on name and \<open>entity_type\<close>, a
  relationship \<open>MERGE\<close> on the \<open>type\<close> property between every bound source and target, and
  a \<open>SET\<close> on every bound relationship. The database refuses a \<open>MERGE\<close> on a \<open>null\<close>
  property value.
\<close>

definition node_matches :: "string \<Rightarrow> string \<Rightarrow> node \<Rightarrow> bool" where
  "node_matches name typ n = (node_name n = name \<and> node_entity_type n = Some typ)"

definition merge_node :: "string \<Rightarrow> string \<Rightarrow> node list \<Rightarrow> node list" where
  "merge_node name typ ns =
     (if list_ex (node_matches name typ) ns then ns else ns @ [new_node name (Some typ)])"

definition matching_nodes :: "string \<Rightarrow> string \<Rightarrow> node list \<Rightarrow> nat list" where
  "matching_nodes name typ ns = filter (\<lambda>i. node_matches name typ (ns ! i)) [0..<length ns]"

definition edge_matches :: "nat \<Rightarrow> nat \<Rightarrow> string \<Rightarrow> edge \<Rightarrow> bool" where
  "edge_matches s t typ r = (edge_source r = s \<and> edge_target r = t \<and> edge_type r = typ)"

definition merge_edge :: "string \<Rightarrow> edge list \<Rightarrow> nat \<times> nat \<Rightarrow> edge list" where
  "merge_edge typ es st =
     (if list_ex (edge_matches (fst st) (snd st) typ) es then es
      else es @ [\<lparr> edge_source = fst st, edge_target = snd st, edge_type = typ,
                   edge_description = None, edge_confidence = None, edge_run_id = None \<rparr>])"

definition set_edge_props :: "string \<Rightarrow> relationship \<Rightarrow> edge \<Rightarrow> edge" where
  "set_edge_props run_id r e =
     e\<lparr> edge_description := Some (case rel_description r of None \<Rightarrow> [] | Some d \<Rightarrow> d),
        edge_confidence :=
          Some (case rel_confidence r of None \<Rightarrow> 0 | Some c \<Rightarrow> c),
        edge_run_id := Some run_id \<rparr>"

definition merge_relationship :: "string \<Rightarrow> relationship \<Rightarrow> graph \<Rightarrow> error + graph" where
  "merge_relationship run_id r g =
     (case (rel_source_type r, rel_target_type r, rel_relationship_type r) of
        (Some styp, Some ttyp, Some rtyp) \<Rightarrow>
          (let ns1 = merge_node (rel_source_name r) styp (nodes g);
               ns2 = merge_node (rel_target_name r) ttyp ns1;
               srcs = matching_nodes (rel_source_name r) styp ns2;
               tgts = matching_nodes (rel_target_name r) ttyp ns2;
               pairs = List.product srcs tgts;
               es1 = foldl (merge_edge rtyp) (edges g) pairs
           in Inr \<lparr> nodes = ns2,
                    edges = map (\<lambda>e. if (edge_source e, edge_target e) \<in> set pairs
                                         \<and> edge_type e = rtyp
                                      then set_edge_props run_id r e else e) es1 \<rparr>)
      | _ \<Rightarrow> Inl (OtherError ''Cannot merge on a null property value''))"

text \<open>
  The persistor object: the graph behind the driver, the number of queries the driver
  has sent so far, and the run id. The database environment \<open>env\<close> says, for the \<open>n\<close>-th
  query sent, whether the server fails it (\<open>Some\<close> error; \<open>TransientError\<close> is the class
  the retry loop catches) or executes it (\<open>None\<close>).
\<close>

record neo4j =
  db_graph :: graph
  db_attempts :: nat
  db_run_id :: string

type_synonym db_env = "nat \<Rightarrow> error option"

definition run_query :: "db_env \<Rightarrow> (graph \<Rightarrow> error + graph) \<Rightarrow> neo4j \<Rightarrow> (error + unit) \<times> neo4j" where
  "run_query env q db =
     (let db' = db\<lparr> db_attempts := db_attempts db + 1 \<rparr>
      in case env (db_attempts db) of
           Some e \<Rightarrow> (Inl e, db')
         | None \<Rightarrow>
             (case q (db_graph db) of
                Inl e \<Rightarrow> (Inl e, db')
              | Inr g \<Rightarrow> (Inr (), db'\<lparr> db_graph := g \<rparr>)))"

text \<open>
  \<open>_run_with_retry\<close>: the \<open>while\<close> loop with its counter \<open>retries\<close>; only
  \<open>TransientError\<close> is caught, and the loop that ends without a call returns \<open>None\<close>.
\<close>

function run_with_retry ::
  "(neo4j \<Rightarrow> (error + unit) \<times> neo4j) \<Rightarrow> nat \<Rightarrow> nat \<Rightarrow> neo4j \<Rightarrow> (error + unit) \<times> neo4j" where
  "run_with_retry func max_retries retries db =
     (if retries < max_retries then
        (case func db of
           (Inr u, db') \<Rightarrow> (Inr u, db')
         | (Inl e, db') \<Rightarrow>
             if e = TransientError then
               (if retries + 1 = max_retries then (Inl e, db')
                else run_with_retry func max_retries (retries + 1) db')
             else (Inl e, db'))
      else (Inr (), db))"
  by pat_completeness auto
termination
  by (relation "measure (\<lambda>(func, max_retries, retries, db). max_retries - retries)") auto

definition falsy :: "string option \<Rightarrow> bool" where
  "falsy v = (case v of None \<Rightarrow> True | Some s \<Rightarrow> s = [])"

definition save_entity :: "db_env \<Rightarrow> entity \<Rightarrow> neo4j \<Rightarrow> (error + unit) \<times> neo4j" where
  "save_entity env e db =
     (if ent_name e = [] \<or> falsy (ent_type e) then (Inl ValueError, db)
      else run_with_retry (run_query env (merge_entity (db_run_id db) e)) 3 0 db)"

definition save_relationship :: "db_env \<Rightarrow> relationship \<Rightarrow> neo4j \<Rightarrow> (error + unit) \<times> neo4j" where
  "save_relationship env r db =
     (if rel_source_name r = [] \<or> rel_target_name r = [] \<or> falsy (rel_relationship_type r)
      then (Inl ValueError, db)
      else run_with_retry (run_query env (merge_relationship (db_run_id db) r)) 3 0 db)"

text \<open>\<open>_ensure_indexes\<close>: two queries sent without the retry loop; they change no data.\<close>

definition ensure_indexes :: "db_env \<Rightarrow> neo4j \<Rightarrow> (error + unit) \<times> neo4j" where
  "ensure_indexes env db =
     (case run_query env Inr db of
        (Inl e, db') \<Rightarrow> (Inl e, db')
      | (Inr u, db') \<Rightarrow> run_query env Inr db')"

section \<open>Checkpoint file\<close>

text \<open>
  \<open>str(n)\<close> for an integer, and the pieces that \<open>json.dump\<close> writes for a list of
  integers, one \<open>write\<close> call each: \<open>"[]"\<close> for the empty list, else \<open>"[" + str(x1)\<close>,
  \<open>", " + str(x)\<close> for every further element, and \<open>"]"\<close>.
\<close>

fun nat_digits :: "nat \<Rightarrow> string" where
  "nat_digits n =
     (if n < 10 then [char_of (48 + n)]
      else nat_digits (n div 10) @ [char_of (48 + n mod 10)])"

declare nat_digits.simps [simp del]

definition py_str_int :: "int \<Rightarrow> string" where
  "py_str_int i = (if i < 0 then CHR ''-'' # nat_digits (nat (- i)) else nat_digits (nat i))"

definition json_chunks :: "int list \<Rightarrow> string list" where
  "json_chunks xs =
     (case xs of
        [] \<Rightarrow> [''[]'']
      | x # rest \<Rightarrow> (''['' @ py_str_int x) # map (\<lambda>y. '', '' @ py_str_int y) rest @ ['']''])"

definition json_dumps :: "int list \<Rightarrow> string" where
  "json_dumps xs = concat (json_chunks xs)"

text \<open>
  \<open>json.load\<close> on a text that is an array of integers; any other text is reported as
  a decoding error (a text that is valid JSON of another shape is outside this model).
\<close>

definition is_json_ws :: "char \<Rightarrow> bool" where
  "is_json_ws c = (c = CHR '' '' \<or> c = CHR 0x09 \<or> c = CHR 0x0A \<or> c = CHR 0x0D)"

definition strip_json_ws :: "string \<Rightarrow> string" where
  "strip_json_ws s = rev (dropWhile is_json_ws (rev (dropWhile is_json_ws s)))"

fun split_on :: "char \<Rightarrow> string \<Rightarrow> string list" where
  "split_on c [] = [[]]"
| "split_on c (x # xs) =
     (if x = c then [] # split_on c xs
      else (case split_on c xs of
              p # ps \<Rightarrow> (x # p) # ps
            | [] \<Rightarrow> [[x]]))"

definition json_int :: "string \<Rightarrow> int option" where
  "json_int s =
     (let t = strip_json_ws s;
          neg = (t \<noteq> [] \<and> hd t = CHR ''-'');
          ds = (if neg then tl t else t)
      in if ds \<noteq> [] \<and> list_all is_digit ds \<and> (length ds = 1 \<or> hd ds \<noteq> CHR ''0'')
         then Some (if neg then - int (nat_of_digits ds) else int (nat_of_digits ds))
         else None)"

definition json_load_ids :: "string \<Rightarrow> int list option" where
  "json_load_ids s =
     (let t = strip_json_ws s
      in if length t < 2 \<or> hd t \<noteq> CHR ''['' \<or> last t \<noteq> CHR '']'' then None
         else (let inner = butlast (tl t)
               in if strip_json_ws inner = [] then Some []
                  else those (map json_int (split_on CHR '','' inner))))"

text \<open>
  The set \<open>processed_ids\<close> is a list without repetition; \<open>add\<close> appends an absent
  element. Only membership is observed by the executor. The order in which
  \<open>list(processed_ids)\<close> enumerates the set is decided by the hash table of the Python
  runtime and is not modelled: the list here is in insertion order, so the text that
  \<open>save_checkpoint\<close> writes can differ from the code's in the order of its elements (for
  the set made of 3 and then 1 the code writes \<open>[1, 3]\<close>, the model \<open>[3, 1]\<close>), never in the
  elements themselves, and loading gives the same set for every order.
\<close>

definition set_add :: "int \<Rightarrow> int list \<Rightarrow> int list" where
  "set_add x xs = (if x \<in> set xs then xs else xs @ [x])"

text \<open>
  The content of \<open>CHECKPOINT_FILE\<close> is \<open>None\<close> when the file does not exist.
  \<open>load_checkpoint\<close> raises what \<open>json.load\<close> raises.
\<close>

definition load_checkpoint :: "string option \<Rightarrow> error + int list" where
  "load_checkpoint file =
     (case file of
        None \<Rightarrow> Inr []
      | Some s \<Rightarrow>
          (case json_load_ids s of
             None \<Rightarrow> Inl JSONDecodeError
           | Some xs \<Rightarrow> Inr (remdups xs)))"

text \<open>
  \<open>save_checkpoint\<close> as the file operations it performs, in order: \<open>open("w")\<close> truncates
  the file in place, then \<open>json.dump\<close> writes its pieces. A crash after \<open>k\<close> operations
  leaves the file as the first \<open>k\<close> operations made it. The truncation happens when the
  file is opened; a written piece is taken to reach the file with its \<open>write\<close> call, and
  the write itself is taken to succeed.
\<close>

datatype file_op = Truncate | Write string

fun apply_op :: "string option \<Rightarrow> file_op \<Rightarrow> string option" where
  "apply_op file Truncate = Some []"
| "apply_op file (Write s) = Some ((case file of None \<Rightarrow> [] | Some old \<Rightarrow> old) @ s)"

definition save_ops :: "int list \<Rightarrow> file_op list" where
  "save_ops processed_ids = Truncate # map Write (json_chunks processed_ids)"

definition save_checkpoint_file :: "int list \<Rightarrow> string option \<Rightarrow> string option" where
  "save_checkpoint_file processed_ids file = foldl apply_op file (save_ops processed_ids)"

definition crash_during_save :: "nat \<Rightarrow> int list \<Rightarrow> string option \<Rightarrow> string option" where
  "crash_during_save k processed_ids file = foldl apply_op file (take k (save_ops processed_ids))"

section \<open>Pipeline executor\<close>

text \<open>
  The three stages behind the executor. Named entity recognition (a transformer model)
  and the call of the LLM relation extractor (with the lookup of its API key) are
  external: each is a function that returns its result or the exception it raises. The
  enrichment stage is the function above, run on the local cache file.
\<close>

record stages =
  perform_hybrid_ner :: "string \<Rightarrow> error + entity list"
  local_mitre_cache :: "mitre_dict option"
  extract_relationships_llm :: "string \<Rightarrow> entity list \<Rightarrow> error + relationship list"

text \<open>
  A trace of what the executor does to the outside: stage calls (with the record id of the
  document being processed), calls of the persistor, and checkpoint saves.
\<close>

datatype event =
    NerCall "int option"
  | EnrichCall "int option"
  | RelCall "int option"
  | SaveEntity entity
  | SaveRelationship relationship
  | CheckpointSave "int list"

record metrics =
  empty_texts :: nat
  total_entities :: nat
  total_relationships :: nat
  malformed_docs :: nat

record world =
  w_metrics :: metrics
  w_trace :: "event list"
  w_checkpoint_file :: "string option"
  w_db :: neo4j

definition emit :: "event \<Rightarrow> world \<Rightarrow> world" where
  "emit ev w = w\<lparr> w_trace := w_trace w @ [ev] \<rparr>"

definition malformed :: "world \<Rightarrow> (entity list \<times> relationship list) \<times> world" where
  "malformed w =
     (([], []), w\<lparr> w_metrics := (w_metrics w)\<lparr> malformed_docs := malformed_docs (w_metrics w) + 1 \<rparr> \<rparr>)"

definition process_document ::
  "stages \<Rightarrow> document \<Rightarrow> world \<Rightarrow> (entity list \<times> relationship list) \<times> world" where
  "process_document st doc w =
     (let text = doc_text doc in
      if py_strip text = [] then
        (([], []), w\<lparr> w_metrics := (w_metrics w)\<lparr> empty_texts := empty_texts (w_metrics w) + 1 \<rparr> \<rparr>)
      else
        (let w1 = emit (NerCall (doc_record_id doc)) w in
         case perform_hybrid_ner st text of
           Inl e \<Rightarrow> malformed w1
         | Inr entities \<Rightarrow>
             (let w2 = w1\<lparr> w_metrics := (w_metrics w1)\<lparr> total_entities :=
                             total_entities (w_metrics w1) + length entities \<rparr> \<rparr>;
                  w3 = emit (EnrichCall (doc_record_id doc)) w2 in
              case enrich_entities_with_mitre_stix (local_mitre_cache st) entities of
                Inl e \<Rightarrow> malformed w3
              | Inr enriched_entities \<Rightarrow>
                  (let w4 = emit (RelCall (doc_record_id doc)) w3 in
                   case extract_relationships_llm st text enriched_entities of
                     Inl e \<Rightarrow> malformed w4
                   | Inr relationships \<Rightarrow>
                       ((enriched_entities, relationships),
                        w4\<lparr> w_metrics := (w_metrics w4)\<lparr> total_relationships :=
                              total_relationships (w_metrics w4) + length relationships \<rparr> \<rparr>)))))"

text \<open>\<open>ingest_to_neo4j\<close>: every failure of a save is logged and the loop goes on.\<close>

fun save_entities :: "db_env \<Rightarrow> entity list \<Rightarrow> world \<Rightarrow> world" where
  "save_entities env [] w = w"
| "save_entities env (e # es) w =
     (let w1 = emit (SaveEntity e) w
      in save_entities env es (w1\<lparr> w_db := snd (save_entity env e (w_db w1)) \<rparr>))"

fun save_relationships :: "db_env \<Rightarrow> relationship list \<Rightarrow> world \<Rightarrow> world" where
  "save_relationships env [] w = w"
| "save_relationships env (r # rs) w =
     (let w1 = emit (SaveRelationship r) w
      in save_relationships env rs (w1\<lparr> w_db := snd (save_relationship env r (w_db w1)) \<rparr>))"

definition ingest_to_neo4j ::
  "db_env \<Rightarrow> entity list \<Rightarrow> relationship list \<Rightarrow> bool \<Rightarrow> world \<Rightarrow> world" where
  "ingest_to_neo4j env entities relationships dry_run w =
     (if dry_run then w
      else save_relationships env relationships (save_entities env entities w))"

definition save_checkpoint :: "int list \<Rightarrow> world \<Rightarrow> world" where
  "save_checkpoint processed_ids w =
     emit (CheckpointSave processed_ids)
       (w\<lparr> w_checkpoint_file := save_checkpoint_file processed_ids (w_checkpoint_file w) \<rparr>)"

text \<open>
  One iteration of the main loop of \<open>run_pipeline\<close>, on the pair of \<open>processed_ids\<close> and
  the world, and the loop itself.
\<close>

definition process_one ::
  "stages \<Rightarrow> db_env \<Rightarrow> bool \<Rightarrow> document \<Rightarrow> int list \<times> world \<Rightarrow> int list \<times> world" where
  "process_one st env dry_run doc pw =
     (case doc_record_id doc of
        None \<Rightarrow> pw
      | Some record_id \<Rightarrow>
          if record_id \<in> set (fst pw) then pw
          else
            (let (res, w1) = process_document st doc (snd pw);
                 w2 = ingest_to_neo4j env (fst res) (snd res) dry_run w1;
                 processed_ids = set_add record_id (fst pw)
             in (processed_ids, save_checkpoint processed_ids w2)))"

fun main_loop ::
  "stages \<Rightarrow> db_env \<Rightarrow> bool \<Rightarrow> document list \<Rightarrow> int list \<times> world \<Rightarrow> int list \<times> world" where
  "main_loop st env dry_run [] pw = pw"
| "main_loop st env dry_run (doc # docs) pw =
     main_loop st env dry_run docs (process_one st env dry_run doc pw)"

text \<open>
  The timing pass before the main loop: \<open>process_document(documents[i])\<close> for the first
  \<open>sample_size\<close> documents, results dropped.
\<close>

fun timing_pass :: "stages \<Rightarrow> document list \<Rightarrow> world \<Rightarrow> world" where
  "timing_pass st [] w = w"
| "timing_pass st (doc # docs) w = timing_pass st docs (snd (process_document st doc w))"

text \<open>
  \<open>random.sample(documents, k)\<close> picks \<open>k\<close> distinct positions; the positions picked are
  the argument \<open>choice\<close>.
\<close>

definition valid_choice :: "nat \<Rightarrow> nat list \<Rightarrow> bool" where
  "valid_choice n choice =
     (length choice = min 3 n \<and> distinct choice \<and> list_all (\<lambda>i. i < n) choice)"

definition random_sample :: "document list \<Rightarrow> nat list \<Rightarrow> document list" where
  "random_sample documents choice = map (\<lambda>i. documents ! i) choice"

text \<open>
  \<open>run_pipeline\<close> on the decoded chunk archive. The run raises when the checkpoint
  file cannot be decoded or when the index queries of the persistor's constructor fail.
  Nothing inside the \<open>try\<close> block raises in this model (the stages' exceptions are
  caught in \<open>process_document\<close>, the persistor's in \<open>ingest_to_neo4j\<close>), so closing the
  driver in \<open>finally\<close> is the only thing left after the main loop.
\<close>

definition run_pipeline ::
  "stages \<Rightarrow> db_env \<Rightarrow> string \<Rightarrow> nat list \<Rightarrow> bool \<Rightarrow> chunk list \<Rightarrow> world \<Rightarrow> error + world" where
  "run_pipeline st env run_id choice dry_run archive w =
     (let documents = random_sample (load_and_reconstruct archive) choice;
          total_docs = length documents in
      if total_docs = 0 then Inr w
      else
        (case load_checkpoint (w_checkpoint_file w) of
           Inl e \<Rightarrow> Inl e
         | Inr processed_ids \<Rightarrow>
             (case ensure_indexes env ((w_db w)\<lparr> db_run_id := run_id \<rparr>) of
                (Inl e, db) \<Rightarrow> Inl e
              | (Inr u, db) \<Rightarrow>
                  (let w1 = w\<lparr> w_db := db \<rparr>;
                       sample_size = min 3 total_docs;
                       w2 = timing_pass st (take sample_size documents) w1
                   in Inr (snd (main_loop st env dry_run documents (processed_ids, w2)))))))"



definition two_docs :: "chunk list" where
  "two_docs = [mk_chunk 1 0 ''aaaaaaaaaa'', mk_chunk 2 0 ''bbbbbbbbbb'']"

definition same_doc :: "chunk list" where
  "same_doc = [mk_chunk 1 1 ''bbbbbbbbbb'', mk_chunk 1 0 ''aaaaaaaaaa'', mk_chunk 1 1 ''cccccccccc'']"

definition same_doc_moved :: "chunk list" where
  "same_doc_moved = [mk_chunk 1 0 ''aaaaaaaaaa'', mk_chunk 1 1 ''bbbbbbbbbb'', mk_chunk 1 1 ''cccccccccc'']"

section \<open>Statements about the persistor\<close>


text \<open>Example entities, relationships, persistors and database environments.\<close>

definition ent_apt :: entity where
  "ent_apt = \<lparr> ent_name = ''apt28'', ent_type = Some ''threat_actor'', ent_text = Some ''APT28'',
               ent_confidence = None, ent_description = None, ent_mitre_id = None,
               ent_external_references = None \<rparr>"

definition rel_uses :: relationship where
  "rel_uses = \<lparr> rel_source_name = ''apt28'', rel_source_type = Some ''threat_actor'',
                rel_target_name = ''mimikatz'', rel_target_type = Some ''tool'',
                rel_relationship_type = Some ''uses'', rel_description = None,
                rel_confidence = None \<rparr>"

definition ent_emotet_malware :: entity where
  "ent_emotet_malware =
     \<lparr> ent_name = ''emotet'', ent_type = Some ''malware'', ent_text = Some ''Emotet'',
       ent_confidence = None, ent_description = None, ent_mitre_id = None,
       ent_external_references = None \<rparr>"

definition ent_emotet_tool :: entity where
  "ent_emotet_tool = ent_emotet_malware\<lparr> ent_type := Some ''tool'' \<rparr>"

definition rel_emotet_malware :: relationship where
  "rel_emotet_malware =
     \<lparr> rel_source_name = ''emotet'', rel_source_type = Some ''malware'',
       rel_target_name = ''smb'', rel_target_type = Some ''tool'',
       rel_relationship_type = Some ''uses'', rel_description = None,
       rel_confidence = None \<rparr>"

definition rel_emotet_tool :: relationship where
  "rel_emotet_tool = rel_emotet_malware\<lparr> rel_source_type := Some ''tool'' \<rparr>"

definition db0 :: neo4j where
  "db0 = \<lparr> db_graph = \<lparr> nodes = [], edges = [] \<rparr>, db_attempts = 0, db_run_id = ''run1'' \<rparr>"

definition env_ok :: db_env where
  "env_ok n = None"



text \<open>Upserts in sequence, and the natural keys (name, type) of the stored nodes.\<close>

definition upsert_entities :: "db_env \<Rightarrow> entity list \<Rightarrow> neo4j \<Rightarrow> neo4j" where
  "upsert_entities env es db = foldl (\<lambda>d e. snd (save_entity env e d)) db es"

definition upsert_relationships :: "db_env \<Rightarrow> relationship list \<Rightarrow> neo4j \<Rightarrow> neo4j" where
  "upsert_relationships env rs db = foldl (\<lambda>d r. snd (save_relationship env r d)) db rs"

definition node_keys :: "neo4j \<Rightarrow> (string \<times> string option) list" where
  "node_keys db = map (\<lambda>n. (node_name n, node_entity_type n)) (nodes (db_graph db))"

section \<open>Statements about the executor\<close>

text \<open>
  The stage calls that \<open>process_document\<close> makes for a document, the persistor calls that
  \<open>ingest_to_neo4j\<close> makes for its results, and whether some stage raises for it.
\<close>

definition stage_events :: "stages \<Rightarrow> document \<Rightarrow> event list" where
  "stage_events st doc =
     (if py_strip (doc_text doc) = [] then []
      else NerCall (doc_record_id doc) #
        (case perform_hybrid_ner st (doc_text doc) of
           Inl e \<Rightarrow> []
         | Inr entities \<Rightarrow>
             EnrichCall (doc_record_id doc) #
               (case enrich_entities_with_mitre_stix (local_mitre_cache st) entities of
                  Inl e \<Rightarrow> []
                | Inr enriched_entities \<Rightarrow> [RelCall (doc_record_id doc)])))"

definition persist_events :: "bool \<Rightarrow> entity list \<Rightarrow> relationship list \<Rightarrow> event list" where
  "persist_events dry_run entities relationships =
     (if dry_run then [] else map SaveEntity entities @ map SaveRelationship relationships)"



definition stage_raises :: "stages \<Rightarrow> document \<Rightarrow> bool" where
  "stage_raises st doc =
     (case perform_hybrid_ner st (doc_text doc) of
        Inl e \<Rightarrow> True
      | Inr entities \<Rightarrow>
          (case enrich_entities_with_mitre_stix (local_mitre_cache st) entities of
             Inl e \<Rightarrow> True
           | Inr enriched_entities \<Rightarrow>
               (case extract_relationships_llm st (doc_text doc) enriched_entities of
                  Inl e \<Rightarrow> True
                | Inr relationships \<Rightarrow> False)))"

text \<open>Example stages, worlds, documents and archives.\<close>

definition mitre_present :: "mitre_dict option" where
  "mitre_present = Some \<lparr> md_objects = Some [], md_other_keys = False \<rparr>"

definition st_ok :: stages where
  "st_ok = \<lparr> perform_hybrid_ner = (\<lambda>t. Inr [ent_apt]), local_mitre_cache = mitre_present,
             extract_relationships_llm = (\<lambda>t es. Inr [rel_uses]) \<rparr>"

definition st_no_mitre :: stages where
  "st_no_mitre = st_ok\<lparr> local_mitre_cache := None \<rparr>"

definition st_ner_fails :: stages where
  "st_ner_fails = st_ok\<lparr> perform_hybrid_ner := (\<lambda>t. Inl (OtherError ''model not found'')) \<rparr>"

definition world0 :: world where
  "world0 = \<lparr> w_metrics = \<lparr> empty_texts = 0, total_entities = 0, total_relationships = 0,
                            malformed_docs = 0 \<rparr>,
              w_trace = [], w_checkpoint_file = None, w_db = db0 \<rparr>"

definition mk_doc :: "int \<Rightarrow> string \<Rightarrow> document" where
  "mk_doc rid t = \<lparr> doc_record_id = Some rid, doc_source = PNone, doc_type = PNone,
                    doc_indicator = PNone, doc_date = PNone, doc_text = t \<rparr>"

definition five_docs :: "chunk list" where
  "five_docs = [mk_chunk 1 0 ''aaaaaaaaaa'', mk_chunk 2 0 ''bbbbbbbbbb'', mk_chunk 3 0 ''cccccccccc'',
                mk_chunk 4 0 ''dddddddddd'', mk_chunk 5 0 ''eeeeeeeeee'']"

definition one_doc :: "chunk list" where
  "one_doc = [mk_chunk 1 0 ''aaaaaaaaaa'']"

definition doc1 :: document where
  "doc1 = mk_doc 1 ''aaaaaaaaaa''"

text \<open>What a run leaves behind: its trace, the metrics and the checkpoint file.\<close>

definition run_summary :: "error + world \<Rightarrow> error + (event list \<times> metrics \<times> string option)" where
  "run_summary r = map_sum id (\<lambda>w. (w_trace w, w_metrics w, w_checkpoint_file w)) r"

definition world_123 :: world where
  "world_123 = world0\<lparr> w_checkpoint_file := Some ''[1, 2, 3]'' \<rparr>"

definition world_1 :: world where
  "world_1 = world0\<lparr> w_checkpoint_file := Some ''[1]'' \<rparr>"

text \<open>An archive whose only chunk is ten spaces: it is retained and its document text is empty.\<close>

definition blank_chunks :: "chunk list" where
  "blank_chunks = [mk_chunk 1 0 ''          '']"

section \<open>Properties of the chunk loader\<close>

lemma texts_of_Nil: "texts_of [] d = []"
  by (simp add: texts_of_def)

lemma texts_of_add_chunk:
  "texts_of (add_chunk m rid c e) d = (if d = rid then texts_of m d @ [e] else texts_of m d)"
  by (induction m rid c e rule: add_chunk.induct) (auto simp: texts_of_def)

lemma keys_add_chunk:
  "map fst (add_chunk m rid c e)
   = (if rid \<in> set (map fst m) then map fst m else map fst m @ [rid])"
  by (induction m rid c e rule: add_chunk.induct) auto

lemma texts_of_load_chunks:
  "texts_of (load_chunks m cs) d = texts_of m d @ entries_of d cs"
  by (induction cs arbitrary: m)
     (auto simp: load_step_def texts_of_add_chunk split: chunk_result.splits)

lemma filter_known_key:
  "x \<in> A \<Longrightarrow> filter (\<lambda>y. y \<noteq> x \<and> y \<notin> A) xs = filter (\<lambda>y. y \<notin> A) xs"
  by (induction xs) auto

lemma keys_load_chunks:
  "map fst (load_chunks m cs)
   = map fst m @ filter (\<lambda>k. k \<notin> set (map fst m)) (first_seen (retained_ids cs))"
proof (induction cs arbitrary: m)
  case Nil
  then show ?case by simp
next
  case (Cons c cs)
  show ?case
  proof (cases "validate_chunk c")
    case (Retained rid idx s)
    show ?thesis
    proof (cases "rid \<in> set (map fst m)")
      case True
      then show ?thesis
        using Cons.IH [of "add_chunk m rid c (idx, s)"] Retained
        by (simp add: load_step_def keys_add_chunk filter_known_key del: set_map)
    next
      case False
      then show ?thesis
        using Cons.IH [of "add_chunk m rid c (idx, s)"] Retained
        by (simp add: load_step_def keys_add_chunk del: set_map)
    qed
  qed (use Cons.IH in \<open>simp_all add: load_step_def\<close>)
qed

lemma distinct_first_seen: "distinct (first_seen xs)"
  by (induction xs) auto

lemma set_first_seen: "set (first_seen xs) = set xs"
  by (induction xs) auto

lemma distinct_keys_load: "distinct (map fst (load_chunks [] cs))"
  by (simp add: keys_load_chunks distinct_first_seen)

lemma map_by_keys:
  "distinct (map fst m) \<Longrightarrow>
   map (\<lambda>kr. h (fst kr) (text_chunks (snd kr))) m = map (\<lambda>k. h k (texts_of m k)) (map fst m)"
proof (induction m)
  case Nil
  then show ?case by simp
next
  case (Cons a m)
  obtain k r where a: "a = (k, r)" by (cases a)
  from Cons.prems a have nk: "k \<notin> fst ` set m" and dm: "distinct (map fst m)" by auto
  have "map (\<lambda>k'. h k' (texts_of ((k, r) # m) k')) (map fst m)
        = map (\<lambda>k'. h k' (texts_of m k')) (map fst m)"
    using nk by (intro map_cong) (auto simp: texts_of_def)
  with Cons.IH [OF dm] a show ?case by (simp add: texts_of_def)
qed

text \<open>
  The loader, read as a whole: one document per record id with a retained chunk, in
  order of first retained chunk, whose text is built from that id's retained chunks.
\<close>

lemma reconstruct_id_text:
  "map id_text (load_and_reconstruct cs)
   = map (\<lambda>d. (Some d, full_text (entries_of d cs))) (first_seen (retained_ids cs))"
proof -
  let ?m = "load_chunks [] cs"
  have "map id_text (load_and_reconstruct cs)
        = map (\<lambda>kr. (Some (fst kr), full_text (text_chunks (snd kr)))) ?m"
    by (simp add: load_and_reconstruct_def reconstruct_doc_def id_text_def [abs_def] comp_def)
  also have "\<dots> = map (\<lambda>k. (Some k, full_text (texts_of ?m k))) (map fst ?m)"
    using map_by_keys [OF distinct_keys_load, of "\<lambda>k t. (Some k, full_text t)" cs] by simp
  also have "\<dots> = map (\<lambda>d. (Some d, full_text (entries_of d cs))) (first_seen (retained_ids cs))"
    by (simp add: keys_load_chunks texts_of_load_chunks texts_of_Nil)
  finally show ?thesis .
qed

lemma retained_ids_entries: "d \<in> set (retained_ids cs) \<longleftrightarrow> entries_of d cs \<noteq> []"
  by (induction cs) (auto split: chunk_result.splits)

lemma retained_key: "validate_chunk c = Retained d p s \<Longrightarrow> chunk_key c = Some (d, p)"
  by (auto simp: validate_chunk_def chunk_key_def check_text_def
           split: sum.splits option.splits pyval.splits if_splits)

lemma entries_filter_pos:
  "filter (\<lambda>e. fst e = p) (entries_of d cs)
   = entries_of d (filter (\<lambda>c. chunk_key c = Some (d, p)) cs)"
  by (induction cs) (auto split: chunk_result.splits dest: retained_key)

lemma entries_map_filter: "entries_of d cs = List.map_filter (entry_of d) cs"
  by (induction cs) (auto simp: entry_of_def List.map_filter_simps split: chunk_result.splits)

lemma mset_entries:
  assumes "mset cs' = mset cs"
  shows "mset (entries_of d cs') = mset (entries_of d cs)"
proof -
  have "mset (entries_of d xs)
        = image_mset (the \<circ> entry_of d) (filter_mset (\<lambda>c. entry_of d c \<noteq> None) (mset xs))" for xs
    by (simp add: entries_map_filter List.map_filter_def)
  with assms show ?thesis by simp
qed

lemma retained_ids_map_filter: "retained_ids cs = List.map_filter id_of cs"
  by (induction cs) (auto simp: id_of_def List.map_filter_simps split: chunk_result.splits)

lemma set_retained_ids:
  assumes "mset cs' = mset cs"
  shows "set (retained_ids cs') = set (retained_ids cs)"
proof -
  from assms have "set cs' = set cs" by (rule mset_eq_setD)
  then show ?thesis by (simp add: retained_ids_map_filter List.map_filter_def)
qed

lemma sorted_entries_eq:
  assumes perm: "mset cs' = mset cs"
      and keep: "\<And>p. filter (\<lambda>c. chunk_key c = Some (d, p)) cs'
                       = filter (\<lambda>c. chunk_key c = Some (d, p)) cs"
  shows "sort_key fst (entries_of d cs') = sort_key fst (entries_of d cs)"
proof (rule properties_for_sort_key)
  show "mset (sort_key fst (entries_of d cs)) = mset (entries_of d cs')"
    using mset_entries [OF perm, of d] by simp
next
  fix k
  have "filter (\<lambda>x. fst k = fst x) (sort_key fst (entries_of d cs))
        = filter (\<lambda>x. fst x = fst k) (sort_key fst (entries_of d cs))"
    by (rule filter_cong) auto
  also have "\<dots> = filter (\<lambda>x. fst x = fst k) (entries_of d cs)"
    by (rule sort_key_stable)
  also have "\<dots> = filter (\<lambda>x. fst x = fst k) (entries_of d cs')"
    by (simp add: entries_filter_pos keep)
  also have "\<dots> = filter (\<lambda>x. fst k = fst x) (entries_of d cs')"
    by (rule filter_cong) auto
  finally show "filter (\<lambda>x. fst k = fst x) (sort_key fst (entries_of d cs))
                = filter (\<lambda>x. fst k = fst x) (entries_of d cs')" .
next
  show "sorted (map fst (sort_key fst (entries_of d cs)))" by simp
qed

lemma text_of_doc_reconstruct:
  "text_of_doc (load_and_reconstruct cs) d
   = (if d \<in> set (retained_ids cs) then Some (full_text (entries_of d cs)) else None)"
proof -
  have "map_of (map (\<lambda>d. (Some d, f d)) ks) (Some d) = (if d \<in> set ks then Some (f d) else None)"
    for f :: "int \<Rightarrow> string" and ks
    by (induction ks) auto
  then show ?thesis
    by (simp add: text_of_doc_def reconstruct_id_text set_first_seen)
qed

lemmas loader_eval =
  load_and_reconstruct_def load_step_def validate_chunk_def lookup_key_def check_text_def
  mk_chunk_def MIN_TEXT_LENGTH_def MAX_CHUNK_TEXT_LENGTH_def reconstruct_doc_def
  full_text_def py_strip_def is_space_def id_text_def chunk_key_def






text \<open>
  Claim C7, as the loader computes it. Let \<open>cs'\<close> be a permutation of the archive \<open>cs\<close>
  that keeps the read order of the chunks with the same record id and chunk index. Then
  both give the same record ids, each with the same text. The documents come out in the
  order in which their first retained chunks are read, so the two outputs are the same
  sequence of (id, text) whenever that order of first appearance is the same. The sort
  is stable: chunks of one document with equal chunk index stay in read order, none is
  dropped.
\<close>

theorem reconstruct_scan_order:
  assumes perm: "mset cs' = mset cs"
      and keep: "\<And>d p. filter (\<lambda>c. chunk_key c = Some (d, p)) cs'
                       = filter (\<lambda>c. chunk_key c = Some (d, p)) cs"
  shows "(\<forall>d. text_of_doc (load_and_reconstruct cs') d = text_of_doc (load_and_reconstruct cs) d)
       \<and> (first_seen (retained_ids cs') = first_seen (retained_ids cs)
            \<longrightarrow> map id_text (load_and_reconstruct cs') = map id_text (load_and_reconstruct cs))
       \<and> (\<forall>d p. filter (\<lambda>e. fst e = p) (sort_key fst (entries_of d cs))
                 = filter (\<lambda>e. fst e = p) (entries_of d cs))"
proof -
  have ft: "full_text (entries_of d cs') = full_text (entries_of d cs)" for d
    using sorted_entries_eq [OF perm keep, of d] by (simp add: full_text_def)
  have a: "\<forall>d. text_of_doc (load_and_reconstruct cs') d = text_of_doc (load_and_reconstruct cs) d"
    by (simp add: text_of_doc_reconstruct ft set_retained_ids [OF perm])
  have b: "first_seen (retained_ids cs') = first_seen (retained_ids cs)
            \<longrightarrow> map id_text (load_and_reconstruct cs') = map id_text (load_and_reconstruct cs)"
    by (simp add: reconstruct_id_text ft)
  have c: "\<forall>d p. filter (\<lambda>e. fst e = p) (sort_key fst (entries_of d cs))
                 = filter (\<lambda>e. fst e = p) (entries_of d cs)"
    by (simp add: sort_key_stable)
  from a b c show ?thesis by blast
qed

lemma same_doc_keys:
  "filter (\<lambda>c. chunk_key c = Some (d, p)) same_doc_moved
   = filter (\<lambda>c. chunk_key c = Some (d, p)) same_doc"
  by (simp add: same_doc_def same_doc_moved_def loader_eval)

theorem reconstruct_scan_order_witness:
  "mset same_doc_moved = mset same_doc
   \<and> (\<forall>d p. filter (\<lambda>c. chunk_key c = Some (d, p)) same_doc_moved
            = filter (\<lambda>c. chunk_key c = Some (d, p)) same_doc)
   \<and> same_doc_moved \<noteq> same_doc
   \<and> first_seen (retained_ids same_doc_moved) = first_seen (retained_ids same_doc)
   \<and> (\<forall>d. text_of_doc (load_and_reconstruct same_doc_moved) d
          = text_of_doc (load_and_reconstruct same_doc) d)
   \<and> map id_text (load_and_reconstruct same_doc_moved) = map id_text (load_and_reconstruct same_doc)
   \<and> map id_text (load_and_reconstruct same_doc) = [(Some 1, ''aaaaaaaaaa bbbbbbbbbb cccccccccc'')]"
proof -
  have p: "mset same_doc_moved = mset same_doc"
    by (simp add: same_doc_def same_doc_moved_def)
  have n: "same_doc_moved \<noteq> same_doc"
    by (simp add: same_doc_def same_doc_moved_def mk_chunk_def)
  have f: "first_seen (retained_ids same_doc_moved) = first_seen (retained_ids same_doc)"
    by (simp add: same_doc_def same_doc_moved_def loader_eval)
  have v: "map id_text (load_and_reconstruct same_doc) = [(Some 1, ''aaaaaaaaaa bbbbbbbbbb cccccccccc'')]"
    by (simp add: same_doc_def loader_eval)
  from reconstruct_scan_order [OF p same_doc_keys] p n f v same_doc_keys show ?thesis
    by simp
qed

text \<open>
  Claim C7 as it is written fails on the order of the documents: exchanging two chunks of
  different documents keeps the read order within every (id, index) class, and exchanges
  the two documents of the output.
\<close>

theorem document_order_counterexample:
  "mset (rev two_docs) = mset two_docs
   \<and> (\<forall>d p. filter (\<lambda>c. chunk_key c = Some (d, p)) (rev two_docs)
            = filter (\<lambda>c. chunk_key c = Some (d, p)) two_docs)
   \<and> map id_text (load_and_reconstruct two_docs) = [(Some 1, ''aaaaaaaaaa''), (Some 2, ''bbbbbbbbbb'')]
   \<and> map id_text (load_and_reconstruct (rev two_docs)) = [(Some 2, ''bbbbbbbbbb''), (Some 1, ''aaaaaaaaaa'')]
   \<and> map id_text (load_and_reconstruct (rev two_docs)) \<noteq> map id_text (load_and_reconstruct two_docs)"
  by (simp add: two_docs_def loader_eval)

section \<open>Properties of the persistor\<close>

lemma retry_unrolled:
  "run_with_retry func 3 0 db =
     (case func db of
        (Inr u, db1) \<Rightarrow> (Inr u, db1)
      | (Inl e1, db1) \<Rightarrow>
          if e1 = TransientError then
            (case func db1 of
               (Inr u, db2) \<Rightarrow> (Inr u, db2)
             | (Inl e2, db2) \<Rightarrow>
                 if e2 = TransientError then func db2 else (Inl e2, db2))
          else (Inl e1, db1))"
  apply (subst run_with_retry.simps)
  apply (subst run_with_retry.simps)
  apply (subst run_with_retry.simps)
  apply (auto split: prod.splits sum.splits)
  done













lemmas store_eval =
  save_entity_def save_relationship_def retry_unrolled run_query_def merge_entity_def
  merge_relationship_def merge_node_def matching_nodes_def merge_edge_def node_matches_def
  edge_matches_def set_entity_props_def set_edge_props_def new_node_def falsy_def Let_def


text \<open>
  Claim C8 on the code. \<open>save_entity\<close> merges on the name alone, not on name and type,
  while the node merges of \<open>save_relationship\<close> use name and \<open>entity_type\<close>. Two entities
  with the same name and different types are stored as one node whose type is the last one
  written; two relationships can create two nodes with one name and different types, and
  an entity upsert then overwrites both, leaving two stored nodes with the same name and
  type.
\<close>

theorem entity_upsert_merges_by_name_only:
  "node_keys (upsert_entities env_ok [ent_emotet_malware, ent_emotet_tool] db0)
     = [(''emotet'', Some ''tool'')]
   \<and> node_keys (upsert_relationships env_ok [rel_emotet_malware, rel_emotet_tool] db0)
     = [(''emotet'', Some ''malware''), (''smb'', Some ''tool''), (''emotet'', Some ''tool'')]
   \<and> node_keys (upsert_entities env_ok [ent_emotet_malware]
         (upsert_relationships env_ok [rel_emotet_malware, rel_emotet_tool] db0))
     = [(''emotet'', Some ''malware''), (''smb'', Some ''tool''), (''emotet'', Some ''malware'')]"
  by (simp add: node_keys_def upsert_entities_def upsert_relationships_def
      rel_emotet_malware_def rel_emotet_tool_def ent_emotet_malware_def ent_emotet_tool_def
      db0_def env_ok_def store_eval)

section \<open>Properties of the executor and the checkpoint file\<close>

lemma process_document_trace:
  "w_trace (snd (process_document st doc w)) = w_trace w @ stage_events st doc"
  by (simp add: process_document_def stage_events_def malformed_def emit_def Let_def
           split: sum.splits)

lemma process_document_frame:
  "w_checkpoint_file (snd (process_document st doc w)) = w_checkpoint_file w
   \<and> w_db (snd (process_document st doc w)) = w_db w"
  by (simp add: process_document_def malformed_def emit_def Let_def split: sum.splits)


lemma save_entities_trace:
  "w_trace (save_entities env es w) = w_trace w @ map SaveEntity es
   \<and> w_checkpoint_file (save_entities env es w) = w_checkpoint_file w"
  by (induction es arbitrary: w) (simp_all add: emit_def Let_def)

lemma save_relationships_trace:
  "w_trace (save_relationships env rs w) = w_trace w @ map SaveRelationship rs
   \<and> w_checkpoint_file (save_relationships env rs w) = w_checkpoint_file w"
  by (induction rs arbitrary: w) (simp_all add: emit_def Let_def)

lemma ingest_trace:
  "w_trace (ingest_to_neo4j env es rs dry w) = w_trace w @ persist_events dry es rs
   \<and> w_checkpoint_file (ingest_to_neo4j env es rs dry w) = w_checkpoint_file w"
  by (simp add: ingest_to_neo4j_def persist_events_def save_entities_trace
      save_relationships_trace)


lemma foldl_write: "foldl apply_op (Some s) (map Write cs) = Some (s @ concat cs)"
  by (induction cs arbitrary: s) simp_all

lemma save_checkpoint_file_content:
  "save_checkpoint_file ids file = Some (json_dumps ids)"
  by (simp add: save_checkpoint_file_def save_ops_def foldl_write json_dumps_def)

lemma save_checkpoint_effect:
  "w_trace (save_checkpoint ids w) = w_trace w @ [CheckpointSave ids]
   \<and> w_checkpoint_file (save_checkpoint ids w) = Some (json_dumps ids)"
  by (simp add: save_checkpoint_def emit_def save_checkpoint_file_content)

lemma process_one_skip:
  "doc_record_id doc = Some rid \<Longrightarrow> rid \<in> set ids \<Longrightarrow>
   process_one st env dry doc (ids, w) = (ids, w)"
  by (simp add: process_one_def)

lemma process_one_commit:
  assumes "doc_record_id doc = Some rid" and "rid \<notin> set ids"
  shows "fst (process_one st env dry doc (ids, w)) = set_add rid ids"
    and "w_trace (snd (process_one st env dry doc (ids, w)))
         = w_trace w @ stage_events st doc
           @ persist_events dry (fst (fst (process_document st doc w)))
               (snd (fst (process_document st doc w)))
           @ [CheckpointSave (set_add rid ids)]"
    and "w_checkpoint_file (snd (process_one st env dry doc (ids, w)))
         = Some (json_dumps (set_add rid ids))"
  using assms
  by (simp_all add: process_one_def Let_def split_beta save_checkpoint_effect ingest_trace
      process_document_trace)



lemma process_document_empty_text:
  "py_strip (doc_text doc) = [] \<Longrightarrow> fst (process_document st doc w) = ([], [])"
  by (simp add: process_document_def)

lemma process_document_stage_failure:
  "perform_hybrid_ner st (doc_text doc) = Inl e \<Longrightarrow> fst (process_document st doc w) = ([], [])"
  "perform_hybrid_ner st (doc_text doc) = Inr ents \<Longrightarrow>
   enrich_entities_with_mitre_stix (local_mitre_cache st) ents = Inl e \<Longrightarrow>
   fst (process_document st doc w) = ([], [])"
  "perform_hybrid_ner st (doc_text doc) = Inr ents \<Longrightarrow>
   enrich_entities_with_mitre_stix (local_mitre_cache st) ents = Inr ens \<Longrightarrow>
   extract_relationships_llm st (doc_text doc) ens = Inl e \<Longrightarrow>
   fst (process_document st doc w) = ([], [])"
  by (simp_all add: process_document_def malformed_def Let_def)

lemma digit_char_props:
  assumes "k < 10"
  shows "is_digit (char_of (48 + k))" and "digit_val (char_of (48 + k)) = k"
    and "\<not> is_json_ws (char_of (48 + k))" and "char_of (48 + k) \<noteq> CHR '',''"
    and "char_of (48 + k) \<noteq> CHR ''-''"
    and "k \<noteq> 0 \<Longrightarrow> char_of (48 + k) \<noteq> CHR ''0''"
proof -
  have m: "(48 + k) mod 256 = 48 + k" using assms by simp
  have o: "of_char (char_of (48 + k) :: char) = 48 + k" by (simp add: m)
  show "is_digit (char_of (48 + k))" unfolding is_digit_def o using assms by simp
  show "digit_val (char_of (48 + k)) = k" unfolding digit_val_def o by simp
  have ne: "char_of (48 + k) \<noteq> c" if "of_char c \<noteq> 48 + k" for c :: char
    using that o by auto
  show "\<not> is_json_ws (char_of (48 + k))"
    unfolding is_json_ws_def using ne [of "CHR '' ''"] ne [of "CHR 0x09"] ne [of "CHR 0x0A"]
      ne [of "CHR 0x0D"] by simp
  show "char_of (48 + k) \<noteq> CHR '',''" by (rule ne) simp
  show "char_of (48 + k) \<noteq> CHR ''-''" by (rule ne) simp
  show "k \<noteq> 0 \<Longrightarrow> char_of (48 + k) \<noteq> CHR ''0''" by (rule ne) simp
qed

lemma nat_digits_nonempty: "nat_digits n \<noteq> []"
  by (subst nat_digits.simps) simp

lemma nat_digits_all:
  "list_all (\<lambda>c. is_digit c \<and> \<not> is_json_ws c \<and> c \<noteq> CHR '','' \<and> c \<noteq> CHR ''-'') (nat_digits n)"
proof (induction n rule: nat_digits.induct)
  case (1 n)
  show ?case
  proof (cases "n < 10")
    case True
    then show ?thesis by (subst nat_digits.simps) (simp add: digit_char_props)
  next
    case False
    have "n mod 10 < 10" by simp
    with False 1 show ?thesis
      by (subst nat_digits.simps) (simp add: digit_char_props)
  qed
qed

lemma nat_of_digits_snoc: "nat_of_digits (ds @ [d]) = 10 * nat_of_digits ds + digit_val d"
  by (simp add: nat_of_digits_def)

lemma nat_of_digits_nat_digits: "nat_of_digits (nat_digits n) = n"
proof (induction n rule: nat_digits.induct)
  case (1 n)
  show ?case
  proof (cases "n < 10")
    case True
    then show ?thesis
      by (subst nat_digits.simps) (simp add: nat_of_digits_def digit_char_props)
  next
    case False
    have "n mod 10 < 10" by simp
    with False 1 show ?thesis
      by (subst nat_digits.simps) (simp add: nat_of_digits_snoc digit_char_props)
  qed
qed

lemma nat_digits_no_leading_zero:
  "length (nat_digits n) = 1 \<or> hd (nat_digits n) \<noteq> CHR ''0''"
proof (induction n rule: nat_digits.induct)
  case (1 n)
  show ?case
  proof (cases "n < 10")
    case True
    then show ?thesis by (subst nat_digits.simps, subst nat_digits.simps) simp
  next
    case False
    then have "\<not> n div 10 < 10 \<or> (n div 10 < 10 \<and> n div 10 \<noteq> 0)" by auto
    then have "hd (nat_digits (n div 10)) \<noteq> CHR ''0''"
    proof
      assume "\<not> n div 10 < 10"
      then have "length (nat_digits (n div 10)) \<noteq> 1"
        by (subst nat_digits.simps) (simp add: nat_digits_nonempty)
      with 1 False show ?thesis by simp
    next
      assume "n div 10 < 10 \<and> n div 10 \<noteq> 0"
      then show ?thesis by (subst nat_digits.simps) (simp add: digit_char_props)
    qed
    with False show ?thesis
      by (subst (2) nat_digits.simps) (simp add: nat_digits_nonempty)
  qed
qed

lemma strip_json_ws_id:
  assumes "s \<noteq> []" and "\<not> is_json_ws (hd s)" and "\<not> is_json_ws (last s)"
  shows "strip_json_ws s = s"
proof -
  from assms have a: "dropWhile is_json_ws s = s" by (cases s) simp_all
  from assms have "dropWhile is_json_ws (rev s) = rev s"
    by (cases "rev s") (simp_all add: last_rev [symmetric] hd_rev)
  with a show ?thesis by (simp add: strip_json_ws_def)
qed

lemma strip_json_ws_nonempty:
  "s \<noteq> [] \<Longrightarrow> \<not> is_json_ws (hd s) \<Longrightarrow> strip_json_ws s \<noteq> []"
  by (cases s) (auto simp: strip_json_ws_def dropWhile_eq_Nil_conv)

lemma nat_digits_ends:
  "\<not> is_json_ws (hd (nat_digits n))" "\<not> is_json_ws (last (nat_digits n))"
  "CHR '','' \<notin> set (nat_digits n)"
  using nat_digits_all [of n] nat_digits_nonempty [of n]
  by (auto simp: list_all_iff)

lemma minus_not_ws: "\<not> is_json_ws CHR ''-''"
  by (simp add: is_json_ws_def)

lemma py_str_int_props:
  "py_str_int i \<noteq> []" "\<not> is_json_ws (hd (py_str_int i))" "\<not> is_json_ws (last (py_str_int i))"
  "CHR '','' \<notin> set (py_str_int i)"
proof -
  show "py_str_int i \<noteq> []" by (simp add: py_str_int_def nat_digits_nonempty)
  show "\<not> is_json_ws (hd (py_str_int i))"
  proof (cases "i < 0")
    case True
    then have "hd (py_str_int i) = CHR ''-''" by (simp add: py_str_int_def)
    then show ?thesis by (simp only: minus_not_ws not_False_eq_True)
  next
    case False
    then have "py_str_int i = nat_digits (nat i)" by (simp add: py_str_int_def)
    then show ?thesis by (simp only: nat_digits_ends not_False_eq_True)
  qed
  show "\<not> is_json_ws (last (py_str_int i))"
  proof (cases "i < 0")
    case True
    then have "last (py_str_int i) = last (nat_digits (nat (- i)))"
      by (simp add: py_str_int_def nat_digits_nonempty)
    then show ?thesis by (simp only: nat_digits_ends not_False_eq_True)
  next
    case False
    then have "py_str_int i = nat_digits (nat i)" by (simp add: py_str_int_def)
    then show ?thesis by (simp only: nat_digits_ends not_False_eq_True)
  qed
  show "CHR '','' \<notin> set (py_str_int i)"
  proof (cases "i < 0")
    case True
    then have "set (py_str_int i) = insert CHR ''-'' (set (nat_digits (nat (- i))))"
      by (simp add: py_str_int_def)
    then show ?thesis using nat_digits_ends(3) [of "nat (- i)"] by simp
  next
    case False
    then have "py_str_int i = nat_digits (nat i)" by (simp add: py_str_int_def)
    then show ?thesis by (simp only: nat_digits_ends not_False_eq_True)
  qed
qed

lemma json_int_digits:
  "json_int (nat_digits n) = Some (int n)"
proof -
  have s: "strip_json_ws (nat_digits n) = nat_digits n"
    using py_str_int_props [of "int n"] by (intro strip_json_ws_id) (simp_all add: py_str_int_def)
  have nh: "hd (nat_digits n) \<noteq> CHR ''-''"
    using nat_digits_all [of n] nat_digits_nonempty [of n] by (cases "nat_digits n") auto
  have d: "list_all is_digit (nat_digits n)"
    using nat_digits_all [of n] by (simp add: list_all_iff)
  show ?thesis
    using nat_digits_no_leading_zero [of n]
    by (simp add: json_int_def s nh d nat_digits_nonempty nat_of_digits_nat_digits Let_def)
qed

lemma json_int_py_str_int: "json_int (py_str_int i) = Some i"
proof (cases "i < 0")
  case False
  then show ?thesis using json_int_digits [of "nat i"] by (simp add: py_str_int_def)
next
  case True
  let ?ds = "nat_digits (nat (- i))"
  have s: "strip_json_ws (CHR ''-'' # ?ds) = CHR ''-'' # ?ds"
    using py_str_int_props [of i] True by (intro strip_json_ws_id) (simp_all add: py_str_int_def)
  have d: "list_all is_digit ?ds"
    using nat_digits_all [of "nat (- i)"] by (simp add: list_all_iff)
  show ?thesis
    using nat_digits_no_leading_zero [of "nat (- i)"] True
    by (simp add: json_int_def py_str_int_def s d nat_digits_nonempty nat_of_digits_nat_digits
        Let_def)
qed

lemma strip_json_ws_space: "strip_json_ws (CHR '' '' # s) = strip_json_ws s"
proof -
  have "dropWhile is_json_ws (rev s @ '' '') = (if dropWhile is_json_ws (rev s) = [] then []
          else dropWhile is_json_ws (rev s) @ '' '')"
    by (simp add: dropWhile_append is_json_ws_def)
  show ?thesis
    by (simp add: strip_json_ws_def is_json_ws_def)
qed

lemma json_int_space: "json_int ('' '' @ py_str_int i) = Some i"
  using json_int_py_str_int [of i]
  by (simp add: json_int_def strip_json_ws_space)

lemma split_on_no_sep: "c \<notin> set a \<Longrightarrow> split_on c a = [a]"
  by (induction a) auto

lemma split_on_sep: "c \<notin> set a \<Longrightarrow> split_on c (a @ c # b) = a # split_on c b"
  by (induction a) auto

lemma split_on_rest:
  "split_on CHR '','' ('' '' @ py_str_int y @ concat (map (\<lambda>y. '', '' @ py_str_int y) rest))
   = map (\<lambda>y. '' '' @ py_str_int y) (y # rest)"
proof (induction rest arbitrary: y)
  case Nil
  then show ?case using py_str_int_props(4) [of y] by (simp add: split_on_no_sep)
next
  case (Cons z rest)
  have "CHR '','' \<notin> set ('' '' @ py_str_int y)" using py_str_int_props(4) [of y] by simp
  from split_on_sep [OF this, of "'' '' @ py_str_int z @ concat (map (\<lambda>y. '', '' @ py_str_int y) rest)"]
  show ?case using Cons.IH [of z] by simp
qed

lemma split_on_inner:
  "split_on CHR '','' (py_str_int x @ concat (map (\<lambda>y. '', '' @ py_str_int y) rest))
   = py_str_int x # map (\<lambda>y. '' '' @ py_str_int y) rest"
proof (cases rest)
  case Nil
  then show ?thesis using py_str_int_props(4) [of x] by (simp add: split_on_no_sep)
next
  case (Cons z zs)
  from split_on_sep [OF py_str_int_props(4) [of x],
      of "'' '' @ py_str_int z @ concat (map (\<lambda>y. '', '' @ py_str_int y) zs)"]
  show ?thesis using split_on_rest [of z zs] Cons by simp
qed

lemma those_json_ints:
  "those (map json_int (map (\<lambda>y. '' '' @ py_str_int y) rest)) = Some rest"
  by (induction rest) (simp_all add: json_int_space del: append.simps)

lemma json_load_ids_bracket:
  assumes "strip_json_ws inner \<noteq> []"
  shows "json_load_ids (CHR ''['' # inner @ '']'') = those (map json_int (split_on CHR '','' inner))"
proof -
  have s: "strip_json_ws (CHR ''['' # inner @ '']'') = CHR ''['' # inner @ '']''"
    by (intro strip_json_ws_id) (simp_all add: is_json_ws_def)
  show ?thesis
    unfolding json_load_ids_def s Let_def using assms by simp
qed

lemma json_roundtrip: "json_load_ids (json_dumps xs) = Some xs"
proof (cases xs)
  case Nil
  then show ?thesis
    by (simp add: json_load_ids_def json_dumps_def json_chunks_def strip_json_ws_def
        is_json_ws_def Let_def)
next
  case (Cons x rest)
  define inner where "inner = py_str_int x @ concat (map (\<lambda>y. '', '' @ py_str_int y) rest)"
  have d: "json_dumps (x # rest) = CHR ''['' # inner @ '']''"
    by (simp add: json_dumps_def json_chunks_def inner_def)
  have ne: "inner \<noteq> []" using py_str_int_props(1) [of x] by (simp add: inner_def)
  have "hd inner = hd (py_str_int x)"
    using py_str_int_props(1) [of x] by (simp add: inner_def)
  then have sn: "strip_json_ws inner \<noteq> []"
    using ne py_str_int_props(2) [of x] by (intro strip_json_ws_nonempty) simp_all
  have "split_on CHR '','' inner = py_str_int x # map (\<lambda>y. '' '' @ py_str_int y) rest"
    unfolding inner_def by (rule split_on_inner)
  then have t: "those (map json_int (split_on CHR '','' inner)) = Some (x # rest)"
    by (simp only: list.map those.simps json_int_py_str_int those_json_ints option.case
        option.map)
  show ?thesis
    unfolding Cons d json_load_ids_bracket [OF sn] t ..
qed

lemma load_checkpoint_roundtrip:
  "load_checkpoint (Some (json_dumps ids)) = Inr (remdups ids)"
  by (simp add: load_checkpoint_def json_roundtrip)

text \<open>Whatever order the saved text lists the set in, loading it gives the same set.\<close>

lemma load_checkpoint_any_order:
  "set ids' = set ids \<Longrightarrow>
   map_sum id set (load_checkpoint (Some (json_dumps ids'))) = Inr (set ids)"
  by (simp add: load_checkpoint_roundtrip)

lemma set_add_member: "rid \<in> set (set_add rid ids)"
  by (simp add: set_add_def)

lemma stage_raises_empty: "stage_raises st doc \<Longrightarrow> fst (process_document st doc w) = ([], [])"
  by (auto simp: stage_raises_def process_document_def malformed_def Let_def split: sum.splits)


text \<open>
  The main loop on a document with a record id that is not in the set, whatever the
  stages do: after the iteration the id is in \<open>processed_ids\<close>, the checkpoint file holds
  the set, and the save is the last event of the iteration. Empty text or a raising stage
  gives empty result lists. Loading the saved file gives a set with the id, and with that
  set the main loop of any later run skips the document without any effect. The timing
  pass of a later run is not part of this statement.
\<close>

theorem failed_documents_are_checkpointed:
  assumes "doc_record_id doc = Some rid" and "rid \<notin> set ids"
  shows "rid \<in> set (fst (process_one st env dry doc (ids, w)))
       \<and> w_checkpoint_file (snd (process_one st env dry doc (ids, w)))
           = Some (json_dumps (fst (process_one st env dry doc (ids, w))))
       \<and> last (w_trace (snd (process_one st env dry doc (ids, w))))
           = CheckpointSave (fst (process_one st env dry doc (ids, w)))
       \<and> (py_strip (doc_text doc) = [] \<or> stage_raises st doc
            \<longrightarrow> fst (process_document st doc w) = ([], []))
       \<and> (\<exists>ids2. load_checkpoint (w_checkpoint_file (snd (process_one st env dry doc (ids, w))))
                    = Inr ids2
                \<and> rid \<in> set ids2
                \<and> (\<forall>st2 env2 dry2 w2. process_one st2 env2 dry2 doc (ids2, w2) = (ids2, w2)))"
proof -
  note c = process_one_commit [OF assms, of st env dry w]
  have a: "rid \<in> set (fst (process_one st env dry doc (ids, w)))"
    by (simp add: c set_add_member)
  have b: "w_checkpoint_file (snd (process_one st env dry doc (ids, w)))
           = Some (json_dumps (fst (process_one st env dry doc (ids, w))))"
    by (simp add: c)
  have l: "last (w_trace (snd (process_one st env dry doc (ids, w))))
           = CheckpointSave (fst (process_one st env dry doc (ids, w)))"
    by (simp add: c)
  have e: "py_strip (doc_text doc) = [] \<or> stage_raises st doc
            \<longrightarrow> fst (process_document st doc w) = ([], [])"
    using process_document_empty_text [of doc st w] stage_raises_empty [of st doc w] by blast
  have r: "load_checkpoint (w_checkpoint_file (snd (process_one st env dry doc (ids, w))))
           = Inr (remdups (set_add rid ids))"
    by (simp add: c load_checkpoint_roundtrip)
  have m: "rid \<in> set (remdups (set_add rid ids))"
    by (simp add: set_add_member)
  have s: "process_one st2 env2 dry2 doc (remdups (set_add rid ids), w2)
           = (remdups (set_add rid ids), w2)" for st2 env2 dry2 w2
    using assms(1) m by (rule process_one_skip)
  from a b l e r m s show ?thesis by blast
qed

lemma digit_chars:
  "char_of (48 :: nat) = CHR ''0''" "char_of (49 :: nat) = CHR ''1''"
  "char_of (50 :: nat) = CHR ''2''" "char_of (51 :: nat) = CHR ''3''"
  "char_of (52 :: nat) = CHR ''4''" "char_of (53 :: nat) = CHR ''5''"
  "char_of (54 :: nat) = CHR ''6''" "char_of (55 :: nat) = CHR ''7''"
  "char_of (56 :: nat) = CHR ''8''" "char_of (57 :: nat) = CHR ''9''"
  by code_simp+

lemmas enrich_eval =
  enrich_entities_with_mitre_stix_def fetch_mitre_data_def dict_truthy_def enrich_one_def
  find_mitre_info_def py_lower_def py_upper_def lower_char_def upper_char_def mitre_present_def

lemmas exec_eval =
  process_one_def process_document_def malformed_def emit_def ingest_to_neo4j_def
  save_checkpoint_def save_checkpoint_file_def save_ops_def json_chunks_def py_str_int_def
  nat_digits.simps digit_chars set_add_def stage_events_def persist_events_def py_strip_def is_space_def
  st_ok_def st_no_mitre_def st_ner_fails_def world0_def mk_doc_def doc1_def ent_apt_def
  rel_uses_def db0_def env_ok_def Let_def

lemma doc1_stage_events:
  "stage_events st_ok doc1 = [NerCall (Some 1), EnrichCall (Some 1), RelCall (Some 1)]"
  by (simp add: exec_eval enrich_eval)


lemma json_dumps_1: "json_dumps [1] = ''[1]''"
  by (simp add: json_dumps_def json_chunks_def py_str_int_def nat_digits.simps digit_chars)


lemma doc1_ner_fails: "stage_raises st_ner_fails doc1"
  by (simp add: stage_raises_def st_ner_fails_def st_ok_def)

theorem failed_documents_are_checkpointed_witness:
  "doc_record_id doc1 = Some 1 \<and> 1 \<notin> set ([] :: int list)
   \<and> stage_raises st_ner_fails doc1
   \<and> fst (process_document st_ner_fails doc1 world0) = ([], [])
   \<and> fst (process_one st_ner_fails env_ok False doc1 ([], world0)) = [1]
   \<and> w_checkpoint_file (snd (process_one st_ner_fails env_ok False doc1 ([], world0))) = Some ''[1]''
   \<and> load_checkpoint (Some ''[1]'') = Inr [1]
   \<and> process_one st_ok env_ok False doc1 ([1], world0) = ([1], world0)"
proof -
  have a: "doc_record_id doc1 = Some 1" by (simp add: doc1_def mk_doc_def)
  have b: "1 \<notin> set ([] :: int list)" by simp
  have f: "fst (process_one st_ner_fails env_ok False doc1 ([], world0)) = [1]"
    by (simp add: process_one_def a set_add_def split_beta Let_def)
  have l: "load_checkpoint (Some ''[1]'') = Inr [1]"
    using load_checkpoint_roundtrip [of "[1]"] by (simp add: json_dumps_1)
  have s: "process_one st_ok env_ok False doc1 ([1], world0) = ([1], world0)"
    by (simp add: process_one_def a)
  from failed_documents_are_checkpointed [OF a b, of st_ner_fails env_ok False world0]
    a b doc1_ner_fails f l s
  show ?thesis by (simp add: json_dumps_1)
qed

text \<open>
  Claim C3 on the code. Without the local MITRE cache, \<open>enrich_entities_with_mitre_stix\<close>
  raises \<open>FileNotFoundError\<close> for every entity list, where its documentation promises a
  graceful fallback; \<open>process_document\<close> catches it, counts the document as malformed and
  returns empty lists, so the entities that were extracted are lost.
\<close>

theorem enrichment_raises_without_mitre_cache:
  "enrich_entities_with_mitre_stix None entities = Inl FileNotFoundError
   \<and> perform_hybrid_ner st_no_mitre (doc_text doc1) = Inr [ent_apt]
   \<and> fst (process_document st_no_mitre doc1 world0) = ([], [])
   \<and> malformed_docs (w_metrics (snd (process_document st_no_mitre doc1 world0))) = 1
   \<and> fst (process_document st_ok doc1 world0) = ([ent_apt], [rel_uses])"
  by (simp add: exec_eval enrich_eval)

text \<open>
  Claim C4, as the code saves. \<open>save_checkpoint\<close> rewrites the file in place. A save that
  runs to completion leaves the JSON text of the set, which \<open>json.load\<close> reads back. A
  crash before the file is opened leaves the old content; a crash after \<open>k + 1\<close> file
  operations leaves the first \<open>k\<close> pieces of the new text, a prefix of it.
\<close>

theorem save_checkpoint_in_place:
  "save_checkpoint_file ids file = Some (json_dumps ids)
   \<and> json_load_ids (json_dumps ids) = Some ids
   \<and> crash_during_save 0 ids file = file
   \<and> (\<forall>k. crash_during_save (Suc k) ids file = Some (concat (take k (json_chunks ids))))
   \<and> (\<forall>k. prefix (concat (take k (json_chunks ids))) (json_dumps ids))"
proof -
  have p: "prefix (concat (take k (json_chunks ids))) (json_dumps ids)" for k
  proof -
    have "concat (json_chunks ids)
          = concat (take k (json_chunks ids)) @ concat (drop k (json_chunks ids))"
      by (simp flip: concat_append)
    then show ?thesis unfolding json_dumps_def by (metis prefixI)
  qed
  have c: "crash_during_save (Suc k) ids file = Some (concat (take k (json_chunks ids)))" for k
    by (simp add: crash_during_save_def save_ops_def foldl_write take_map)
  have z: "crash_during_save 0 ids file = file"
    by (simp add: crash_during_save_def)
  from p c z show ?thesis
    by (simp add: save_checkpoint_file_content json_roundtrip)
qed

theorem save_checkpoint_in_place_witness:
  "save_checkpoint_file [1, 2, 3] (Some ''[1, 2]'') = Some ''[1, 2, 3]''
   \<and> json_load_ids ''[1, 2, 3]'' = Some [1, 2, 3]
   \<and> crash_during_save 0 [1, 2, 3] (Some ''[1, 2]'') = Some ''[1, 2]''
   \<and> crash_during_save 2 [1, 2, 3] (Some ''[1, 2]'') = Some ''[1''
   \<and> prefix ''[1'' ''[1, 2, 3]''"
proof -
  have d: "json_dumps [1, 2, 3] = ''[1, 2, 3]''"
    by (simp add: json_dumps_def json_chunks_def py_str_int_def nat_digits.simps digit_chars)
  have c: "concat (take 1 (json_chunks [1, 2, 3])) = ''[1''"
    by (simp add: json_chunks_def py_str_int_def nat_digits.simps digit_chars)
  have s: "Suc 1 = 2" by simp
  from save_checkpoint_in_place [of "[1, 2, 3]" "Some ''[1, 2]''"]
  have "save_checkpoint_file [1, 2, 3] (Some ''[1, 2]'') = Some (json_dumps [1, 2, 3])"
    and "json_load_ids (json_dumps [1, 2, 3]) = Some [1, 2, 3]"
    and "crash_during_save 0 [1, 2, 3] (Some ''[1, 2]'') = Some ''[1, 2]''"
    and "crash_during_save (Suc 1) [1, 2, 3] (Some ''[1, 2]'')
         = Some (concat (take 1 (json_chunks [1, 2, 3])))"
    and "prefix (concat (take 1 (json_chunks [1, 2, 3]))) (json_dumps [1, 2, 3])"
    by blast+
  then show ?thesis unfolding d c s by blast
qed

text \<open>
  Claim C4 as it is written fails: there is no temporary file and no rename. A crash
  right after the file is opened for writing leaves an empty file, and a crash after two
  pieces leaves a partial array; both fail to load, while the old content did load.
\<close>

theorem torn_checkpoint_counterexample:
  "load_checkpoint (Some ''[1, 2]'') = Inr [1, 2]
   \<and> crash_during_save 1 [1, 2, 3] (Some ''[1, 2]'') = Some []
   \<and> load_checkpoint (Some []) = Inl JSONDecodeError
   \<and> crash_during_save 3 [1, 2, 3] (Some ''[1, 2]'') = Some ''[1, 2''
   \<and> load_checkpoint (Some ''[1, 2'') = Inl JSONDecodeError"
  by (simp add: load_checkpoint_def json_load_ids_def strip_json_ws_def is_json_ws_def
      json_int_def is_digit_def nat_of_digits_def digit_val_def crash_during_save_def
      save_ops_def json_chunks_def py_str_int_def nat_digits.simps digit_chars Let_def)

section \<open>Whole runs of the pipeline\<close>

lemma five_docs_loaded:
  "load_and_reconstruct five_docs
   = [mk_doc 1 ''aaaaaaaaaa'', mk_doc 2 ''bbbbbbbbbb'', mk_doc 3 ''cccccccccc'',
      mk_doc 4 ''dddddddddd'', mk_doc 5 ''eeeeeeeeee'']"
  by (simp add: five_docs_def mk_doc_def loader_eval)

lemma one_doc_loaded: "load_and_reconstruct one_doc = [doc1]"
  by (simp add: one_doc_def doc1_def mk_doc_def loader_eval)

lemma load_123: "load_checkpoint (Some ''[1, 2, 3]'') = Inr [1, 2, 3]"
proof -
  have "json_dumps [1, 2, 3] = ''[1, 2, 3]''"
    by (simp add: json_dumps_def json_chunks_def py_str_int_def nat_digits.simps digit_chars)
  with load_checkpoint_roundtrip [of "[1, 2, 3]"] show ?thesis by simp
qed

lemma process_document_st_ok:
  assumes "py_strip t \<noteq> []"
  shows "process_document st_ok (mk_doc rid t) w
         = (([ent_apt], [rel_uses]),
            w\<lparr> w_metrics := (w_metrics w)\<lparr>
                   total_entities := total_entities (w_metrics w) + 1,
                   total_relationships := total_relationships (w_metrics w) + 1 \<rparr>,
               w_trace := w_trace w
                 @ [NerCall (Some rid), EnrichCall (Some rid), RelCall (Some rid)] \<rparr>)"
proof -
  have e: "enrich_entities_with_mitre_stix mitre_present [ent_apt] = Inr [ent_apt]"
    by (simp add: enrich_eval ent_apt_def)
  show ?thesis
    using assms
    by (simp add: process_document_def st_ok_def mk_doc_def e emit_def Let_def)
qed

lemma ensure_indexes_ok:
  "ensure_indexes env_ok db = (Inr (), db\<lparr> db_attempts := db_attempts db + 2 \<rparr>)"
  by (simp add: ensure_indexes_def run_query_def env_ok_def Let_def)

lemma ingest_metrics: "w_metrics (ingest_to_neo4j env es rs dry w) = w_metrics w"
proof -
  have a: "w_metrics (save_entities env es w) = w_metrics w" for w
    by (induction es arbitrary: w) (simp_all add: emit_def Let_def)
  have b: "w_metrics (save_relationships env rs w) = w_metrics w" for w
    by (induction rs arbitrary: w) (simp_all add: emit_def Let_def)
  show ?thesis by (simp add: ingest_to_neo4j_def a b)
qed

lemma process_one_metrics:
  assumes "doc_record_id doc = Some rid" and "rid \<notin> set ids"
  shows "w_metrics (snd (process_one st env dry doc (ids, w)))
         = w_metrics (snd (process_document st doc w))"
  using assms
  by (simp add: process_one_def split_beta Let_def save_checkpoint_def emit_def ingest_metrics)

lemma nonblank:
  "py_strip ''aaaaaaaaaa'' \<noteq> []" "py_strip ''bbbbbbbbbb'' \<noteq> []" "py_strip ''cccccccccc'' \<noteq> []"
  by (simp_all add: py_strip_def is_space_def)

lemma mk_doc_id: "doc_record_id (mk_doc rid t) = Some rid"
  by (simp add: mk_doc_def)

text \<open>
  Claim C1 on the code. Five documents, of which 1, 2 and 3 are in the checkpoint; the
  run samples three documents, here the first three. The timing pass calls all three
  stages on each of them although they are checkpointed, the main loop then skips them,
  and documents 4 and 5 are not processed at all: the checkpoint is unchanged.
\<close>

theorem restart_invokes_stages_on_checkpointed_documents:
  "valid_choice (length (load_and_reconstruct five_docs)) [0, 1, 2]
   \<and> load_checkpoint (w_checkpoint_file world_123) = Inr [1, 2, 3]
   \<and> run_summary (run_pipeline st_ok env_ok ''run2'' [0, 1, 2] False five_docs world_123)
     = Inr ([NerCall (Some 1), EnrichCall (Some 1), RelCall (Some 1),
             NerCall (Some 2), EnrichCall (Some 2), RelCall (Some 2),
             NerCall (Some 3), EnrichCall (Some 3), RelCall (Some 3)],
            \<lparr> empty_texts = 0, total_entities = 3, total_relationships = 3, malformed_docs = 0 \<rparr>,
            Some ''[1, 2, 3]'')"
proof -
  let ?docs = "[mk_doc 1 ''aaaaaaaaaa'', mk_doc 2 ''bbbbbbbbbb'', mk_doc 3 ''cccccccccc'']"
  have v: "valid_choice (length (load_and_reconstruct five_docs)) [0, 1, 2]"
    by (simp add: five_docs_loaded valid_choice_def)
  have l: "load_checkpoint (w_checkpoint_file world_123) = Inr [1, 2, 3]"
    by (simp add: world_123_def load_123)
  have s: "random_sample (load_and_reconstruct five_docs) [0, 1, 2] = ?docs"
    by (simp add: five_docs_loaded random_sample_def)
  have m: "main_loop st_ok env_ok False ?docs ([1, 2, 3], w) = ([1, 2, 3], w)" for w
    by (simp add: process_one_def mk_doc_id)
  have t: "timing_pass st_ok ?docs w
           = w\<lparr> w_metrics := (w_metrics w)\<lparr>
                   total_entities := total_entities (w_metrics w) + 3,
                   total_relationships := total_relationships (w_metrics w) + 3 \<rparr>,
               w_trace := w_trace w
                 @ [NerCall (Some 1), EnrichCall (Some 1), RelCall (Some 1),
                    NerCall (Some 2), EnrichCall (Some 2), RelCall (Some 2),
                    NerCall (Some 3), EnrichCall (Some 3), RelCall (Some 3)] \<rparr>" for w
    by (simp add: process_document_st_ok nonblank)
  have r: "run_summary (run_pipeline st_ok env_ok ''run2'' [0, 1, 2] False five_docs world_123)
     = Inr ([NerCall (Some 1), EnrichCall (Some 1), RelCall (Some 1),
             NerCall (Some 2), EnrichCall (Some 2), RelCall (Some 2),
             NerCall (Some 3), EnrichCall (Some 3), RelCall (Some 3)],
            \<lparr> empty_texts = 0, total_entities = 3, total_relationships = 3, malformed_docs = 0 \<rparr>,
            Some ''[1, 2, 3]'')"
    unfolding run_pipeline_def s l Let_def
    by (simp add: ensure_indexes_ok t m run_summary_def world_123_def world0_def
        del: timing_pass.simps main_loop.simps)
  from v l r show ?thesis by blast
qed

text \<open>
  Claim C2 on the code. A run over one document that is not in the checkpoint drives it
  through the three stages twice, once in the timing pass and once in the main loop, and
  the metrics count its entity and its relationship twice.
\<close>

theorem every_document_is_processed_twice:
  "valid_choice (length (load_and_reconstruct one_doc)) [0]
   \<and> run_summary (run_pipeline st_ok env_ok ''run2'' [0] False one_doc world0)
     = Inr ([NerCall (Some 1), EnrichCall (Some 1), RelCall (Some 1),
             NerCall (Some 1), EnrichCall (Some 1), RelCall (Some 1),
             SaveEntity ent_apt, SaveRelationship rel_uses, CheckpointSave [1]],
            \<lparr> empty_texts = 0, total_entities = 2, total_relationships = 2, malformed_docs = 0 \<rparr>,
            Some ''[1]'')"
proof -
  have v: "valid_choice (length (load_and_reconstruct one_doc)) [0]"
    by (simp add: one_doc_loaded valid_choice_def)
  have s: "random_sample (load_and_reconstruct one_doc) [0] = [doc1]"
    by (simp add: one_doc_loaded random_sample_def)
  have l: "load_checkpoint (w_checkpoint_file world0) = Inr []"
    by (simp add: world0_def load_checkpoint_def)
  have a: "doc_record_id doc1 = Some 1" by (simp add: doc1_def mk_doc_id)
  have b: "1 \<notin> set ([] :: int list)" by simp
  have p: "process_document st_ok doc1 w
           = (([ent_apt], [rel_uses]),
            w\<lparr> w_metrics := (w_metrics w)\<lparr>
                   total_entities := total_entities (w_metrics w) + 1,
                   total_relationships := total_relationships (w_metrics w) + 1 \<rparr>,
               w_trace := w_trace w
                 @ [NerCall (Some 1), EnrichCall (Some 1), RelCall (Some 1)] \<rparr>)" for w
    unfolding doc1_def by (rule process_document_st_ok) (rule nonblank)
  note c = process_one_commit [OF a b, of st_ok env_ok False]
    process_one_metrics [OF a b, of st_ok env_ok False]
  have r: "run_summary (run_pipeline st_ok env_ok ''run2'' [0] False one_doc world0)
     = Inr ([NerCall (Some 1), EnrichCall (Some 1), RelCall (Some 1),
             NerCall (Some 1), EnrichCall (Some 1), RelCall (Some 1),
             SaveEntity ent_apt, SaveRelationship rel_uses, CheckpointSave [1]],
            \<lparr> empty_texts = 0, total_entities = 2, total_relationships = 2, malformed_docs = 0 \<rparr>,
            Some ''[1]'')"
    unfolding run_pipeline_def s l Let_def
    by (simp add: ensure_indexes_ok run_summary_def c p doc1_stage_events persist_events_def
        set_add_def json_dumps_1 world0_def)
  from v r show ?thesis by blast
qed

lemma blank_chunks_loaded: "load_and_reconstruct blank_chunks = [mk_doc 1 []]"
  by (simp add: blank_chunks_def mk_doc_def loader_eval)

lemma load_1: "load_checkpoint (Some ''[1]'') = Inr [1]"
  using load_checkpoint_roundtrip [of "[1]"] by (simp add: json_dumps_1)

lemma process_document_ner_fails:
  "process_document st_ner_fails doc1 w
   = (([], []),
      w\<lparr> w_metrics := (w_metrics w)\<lparr> malformed_docs := malformed_docs (w_metrics w) + 1 \<rparr>,
         w_trace := w_trace w @ [NerCall (Some 1)] \<rparr>)"
  by (simp add: process_document_def st_ner_fails_def st_ok_def doc1_def mk_doc_def
      malformed_def emit_def nonblank Let_def)

lemma process_document_blank:
  "process_document st (mk_doc rid []) w
   = (([], []),
      w\<lparr> w_metrics := (w_metrics w)\<lparr> empty_texts := empty_texts (w_metrics w) + 1 \<rparr> \<rparr>)"
  by (simp add: process_document_def mk_doc_def py_strip_def)

lemma doc1_ner_fails_events: "stage_events st_ner_fails doc1 = [NerCall (Some 1)]"
  by (simp add: stage_events_def st_ner_fails_def st_ok_def doc1_def mk_doc_def nonblank)

text \<open>
  Claim C10 on the code. A document whose named entity recognition raises is processed
  in a first run and its id is saved in the checkpoint. A later run over the same archive
  loads that checkpoint and still calls \<open>process_document\<close> on the document in its timing
  pass: the recognition stage is invoked again and the document is counted as malformed
  again, before the main loop skips it. A checkpointed document with empty text is
  counted in \<open>empty_texts\<close> again in the same way.
\<close>

theorem later_run_reprocesses_checkpointed_failures:
  "valid_choice (length (load_and_reconstruct one_doc)) [0]
   \<and> stage_raises st_ner_fails doc1
   \<and> run_summary (run_pipeline st_ner_fails env_ok ''run1'' [0] False one_doc world0)
     = Inr ([NerCall (Some 1), NerCall (Some 1), CheckpointSave [1]],
            \<lparr> empty_texts = 0, total_entities = 0, total_relationships = 0, malformed_docs = 2 \<rparr>,
            Some ''[1]'')
   \<and> load_checkpoint (w_checkpoint_file world_1) = Inr [1]
   \<and> run_summary (run_pipeline st_ner_fails env_ok ''run2'' [0] False one_doc world_1)
     = Inr ([NerCall (Some 1)],
            \<lparr> empty_texts = 0, total_entities = 0, total_relationships = 0, malformed_docs = 1 \<rparr>,
            Some ''[1]'')
   \<and> load_and_reconstruct blank_chunks = [mk_doc 1 []]
   \<and> run_summary (run_pipeline st_ok env_ok ''run2'' [0] False blank_chunks world_1)
     = Inr ([],
            \<lparr> empty_texts = 1, total_entities = 0, total_relationships = 0, malformed_docs = 0 \<rparr>,
            Some ''[1]'')"
proof -
  have v: "valid_choice (length (load_and_reconstruct one_doc)) [0]"
    by (simp add: one_doc_loaded valid_choice_def)
  have s: "random_sample (load_and_reconstruct one_doc) [0] = [doc1]"
    by (simp add: one_doc_loaded random_sample_def)
  have sb: "random_sample (load_and_reconstruct blank_chunks) [0] = [mk_doc 1 []]"
    by (simp add: blank_chunks_loaded random_sample_def)
  have l0: "load_checkpoint (w_checkpoint_file world0) = Inr []"
    by (simp add: world0_def load_checkpoint_def)
  have l1: "load_checkpoint (w_checkpoint_file world_1) = Inr [1]"
    by (simp add: world_1_def load_1)
  have a: "doc_record_id doc1 = Some 1" by (simp add: doc1_def mk_doc_id)
  have b: "1 \<notin> set ([] :: int list)" by simp
  note c = process_one_commit [OF a b, of st_ner_fails env_ok False]
    process_one_metrics [OF a b, of st_ner_fails env_ok False]
  have k1: "process_one st env dry doc1 ([1], w) = ([1], w)" for st env dry w
    by (simp add: process_one_def a)
  have k2: "process_one st env dry (mk_doc 1 []) ([1], w) = ([1], w)" for st env dry w
    by (simp add: process_one_def mk_doc_id)
  have r1: "run_summary (run_pipeline st_ner_fails env_ok ''run1'' [0] False one_doc world0)
     = Inr ([NerCall (Some 1), NerCall (Some 1), CheckpointSave [1]],
            \<lparr> empty_texts = 0, total_entities = 0, total_relationships = 0, malformed_docs = 2 \<rparr>,
            Some ''[1]'')"
    unfolding run_pipeline_def s l0 Let_def
    by (simp add: ensure_indexes_ok run_summary_def c process_document_ner_fails
        doc1_ner_fails_events persist_events_def set_add_def json_dumps_1 world0_def)
  have r2: "run_summary (run_pipeline st_ner_fails env_ok ''run2'' [0] False one_doc world_1)
     = Inr ([NerCall (Some 1)],
            \<lparr> empty_texts = 0, total_entities = 0, total_relationships = 0, malformed_docs = 1 \<rparr>,
            Some ''[1]'')"
    unfolding run_pipeline_def s l1 Let_def
    by (simp add: ensure_indexes_ok run_summary_def k1 process_document_ner_fails
        world_1_def world0_def)
  have r3: "run_summary (run_pipeline st_ok env_ok ''run2'' [0] False blank_chunks world_1)
     = Inr ([],
            \<lparr> empty_texts = 1, total_entities = 0, total_relationships = 0, malformed_docs = 0 \<rparr>,
            Some ''[1]'')"
    unfolding run_pipeline_def sb l1 Let_def
    by (simp add: ensure_indexes_ok run_summary_def k2 process_document_blank
        world_1_def world0_def)
  from v doc1_ner_fails r1 l1 r2 blank_chunks_loaded r3 show ?thesis by blast
qed

end
